theory Spec2Isabelle
  imports Complex_Main "HOL-Library.Sublist" "HOL-Library.Code_Target_Nat"
begin

section \<open>Documents and the remote document store\<close>

text \<open>
  A Firestore document, like the JavaScript object literal it is written from, is a finite
  map from field names to values. The object spread \<^verbatim>\<open>{...strainData, userId: userId}\<close>
  is map override (\<open>++\<close>): a field named on the right wins.
\<close>

datatype jsval = JNull | JBool bool | JNum int | JStr string | JArr "jsval list"

type_synonym doc = "string \<rightharpoonup> jsval"

text \<open>
  The two collections the application addresses:
  \<^verbatim>\<open>artifacts/{appId}/users/{userId}/strains/{id}\<close> (one private collection per user) and
  \<^verbatim>\<open>artifacts/{appId}/public/data/community_strains/{id}\<close>.
\<close>

datatype ref = PrivateRef string string | CommunityRef string

datatype request = SetDoc ref doc bool | DeleteDoc ref

text \<open>
  The backend: the contents of both collections, the requests it has received so far (in
  order), and which requests it accepts. A rejected request is the promise rejection that
  the \<^verbatim>\<open>try/catch\<close> blocks of \<^verbatim>\<open>logStrain\<close> and \<^verbatim>\<open>deleteStrain\<close> handle.
\<close>

record firestore =
  users :: "string \<Rightarrow> string \<rightharpoonup> doc"
  community :: "string \<rightharpoonup> doc"
  requests :: "request list"
  accepts :: "request \<Rightarrow> bool"

datatype error = WriteFailure | TypeError

definition lookup :: "firestore \<Rightarrow> ref \<Rightarrow> doc option" where
  "lookup fs r = (case r of PrivateRef uid i \<Rightarrow> users fs uid i | CommunityRef i \<Rightarrow> community fs i)"

definition store :: "ref \<Rightarrow> doc option \<Rightarrow> firestore \<Rightarrow> firestore" where
  "store r v fs =
     (case r of
        PrivateRef uid i \<Rightarrow> fs\<lparr>users := (users fs)(uid := (users fs uid)(i := v))\<rparr>
      | CommunityRef i \<Rightarrow> fs\<lparr>community := (community fs)(i := v)\<rparr>)"

text \<open>
  \<^verbatim>\<open>setDoc(ref, data, {merge: true})\<close> overlays the data on the document already stored
  under the reference (creating it when there is none); without the option it replaces the
  document. \<^verbatim>\<open>deleteDoc(ref)\<close> removes the document; removing a missing one is no error.
\<close>

definition setDoc :: "ref \<Rightarrow> doc \<Rightarrow> bool \<Rightarrow> firestore \<Rightarrow> (error + unit) \<times> firestore" where
  "setDoc r d merge fs =
     (let fs1 = fs\<lparr>requests := requests fs @ [SetDoc r d merge]\<rparr> in
      if accepts fs (SetDoc r d merge)
      then (Inr (),
            store r (Some (if merge
                           then (case lookup fs r of None \<Rightarrow> d | Some old \<Rightarrow> old ++ d)
                           else d)) fs1)
      else (Inl WriteFailure, fs1))"

definition deleteDoc :: "ref \<Rightarrow> firestore \<Rightarrow> (error + unit) \<times> firestore" where
  "deleteDoc r fs =
     (let fs1 = fs\<lparr>requests := requests fs @ [DeleteDoc r]\<rparr> in
      if accepts fs (DeleteDoc r) then (Inr (), store r None fs1) else (Inl WriteFailure, fs1))"

section \<open>Application state\<close>

datatype handle = Firestore

record app =
  db :: "handle option"
  userId :: "string option"
  userName :: "string option"
  isAuthReady :: bool
  isAdmin :: bool
  loading :: bool
  currentPage :: string

text \<open>The state \<^verbatim>\<open>useState\<close> initialises in \<^verbatim>\<open>App\<close>.\<close>

definition initialApp :: app where
  "initialApp = \<lparr>db = None, userId = None, userName = None, isAuthReady = False,
                 isAdmin = False, loading = True, currentPage = ''dashboard''\<rparr>"

text \<open>JavaScript truthiness of a nullable string: \<^verbatim>\<open>null\<close> and \<^verbatim>\<open>''\<close> are falsy.\<close>

fun truthy :: "string option \<Rightarrow> bool" where
  "truthy None = False"
| "truthy (Some s) = (s \<noteq> [])"

text \<open>
  What one call of \<^verbatim>\<open>logStrain\<close> reads from its environment: the automatic ids that
  \<^verbatim>\<open>doc(collection(...))\<close> generates and the three readings of the clock
  (\<^verbatim>\<open>new Date().toISOString()\<close>), in the order the code takes them.
\<close>

record env =
  privateAutoId :: string
  createdAtNow :: string
  updatedAtNow :: string
  communityAutoId :: string
  contributedAtNow :: string

section \<open>Mutation gateway\<close>

definition privateData :: "env \<Rightarrow> string \<Rightarrow> doc \<Rightarrow> doc" where
  "privateData e uid strainData =
     strainData ++ [''userId'' \<mapsto> JStr uid,
                    ''createdAt'' \<mapsto> JStr (createdAtNow e),
                    ''updatedAt'' \<mapsto> JStr (updatedAtNow e)]"

definition communityData :: "env \<Rightarrow> string \<Rightarrow> string \<Rightarrow> doc \<Rightarrow> doc" where
  "communityData e uid docRefId strainData =
     strainData ++ [''originalDocId'' \<mapsto> JStr docRefId,
                    ''userId'' \<mapsto> JStr uid,
                    ''contributedAt'' \<mapsto> JStr (contributedAtNow e)]"

definition logStrain :: "env \<Rightarrow> doc \<Rightarrow> string option \<Rightarrow> app \<times> firestore \<Rightarrow> app \<times> firestore" where
  "logStrain e strainData docId s =
     (case s of (a, fs) \<Rightarrow>
      (case db a of
         None \<Rightarrow> (a, fs)
       | Some _ \<Rightarrow>
           (case userId a of
              None \<Rightarrow> (a, fs)
            | Some uid \<Rightarrow>
                if \<not> truthy (userId a) then (a, fs)
                else
                  let docRefId = (case docId of
                                    None \<Rightarrow> privateAutoId e
                                  | Some i \<Rightarrow> if truthy docId then i else privateAutoId e)
                  in (case setDoc (PrivateRef uid docRefId) (privateData e uid strainData) True fs of
                        (Inl _, fs1) \<Rightarrow> (a, fs1)
                      | (Inr _, fs1) \<Rightarrow>
                          if truthy docId then (a\<lparr>currentPage := ''history''\<rparr>, fs1)
                          else
                            (case setDoc (CommunityRef (communityAutoId e))
                                    (communityData e uid docRefId strainData) False fs1 of
                               (Inl _, fs2) \<Rightarrow> (a, fs2)
                             | (Inr _, fs2) \<Rightarrow> (a\<lparr>currentPage := ''history''\<rparr>, fs2))))))"

definition deleteStrain :: "string \<Rightarrow> app \<times> firestore \<Rightarrow> app \<times> firestore" where
  "deleteStrain docId s =
     (case s of (a, fs) \<Rightarrow>
      (case db a of
         None \<Rightarrow> (a, fs)
       | Some _ \<Rightarrow>
           (case userId a of
              None \<Rightarrow> (a, fs)
            | Some uid \<Rightarrow>
                if \<not> truthy (userId a) then (a, fs)
                else (case deleteDoc (PrivateRef uid docId) fs of (_, fs1) \<Rightarrow> (a, fs1)))))"

text \<open>The requests the backend received between two of its states.\<close>

definition sent :: "firestore \<Rightarrow> firestore \<Rightarrow> request list" where
  "sent fs fs' = drop (length (requests fs)) (requests fs')"

fun onCommunity :: "request \<Rightarrow> bool" where
  "onCommunity (SetDoc (CommunityRef _) _ _) = True"
| "onCommunity (DeleteDoc (CommunityRef _)) = True"
| "onCommunity _ = False"

section \<open>Session manager\<close>

text \<open>
  \<^verbatim>\<open>formatUserId\<close>: \<^verbatim>\<open>substring\<close> clamps a negative start to 0, as the subtraction on
  natural numbers does.
\<close>

definition formatUserId :: "string option \<Rightarrow> string" where
  "formatUserId i =
     (case i of
        None \<Rightarrow> ''Guest''
      | Some s \<Rightarrow> if truthy i then take 4 s @ ''...'' @ drop (length s - 4) s else ''Guest'')"

text \<open>
  The callback registered with \<^verbatim>\<open>onAuthStateChanged\<close>; its argument is the uid of the
  signed-in user, or \<open>None\<close> for \<^verbatim>\<open>null\<close>. The only assignment to \<^verbatim>\<open>isAdmin\<close> in the
  program is the \<^verbatim>\<open>setIsAdmin(true)\<close> here.
\<close>

definition onAuthStateChanged :: "string option \<Rightarrow> app \<Rightarrow> app" where
  "onAuthStateChanged user a =
     (case user of
        Some uid \<Rightarrow>
          a\<lparr>userId := Some uid,
            isAdmin := (if prefix ''admin_'' uid then True else isAdmin a),
            userName := Some (''Tyren R. ('' @ formatUserId (Some uid) @ '')''),
            isAuthReady := True, loading := False\<rparr>
      | None \<Rightarrow> a\<lparr>userId := None, userName := None, isAuthReady := True, loading := False\<rparr>)"

text \<open>The state after the listener has been called with each identity of a list, in order.\<close>

definition authChanges :: "string option list \<Rightarrow> app \<Rightarrow> app" where
  "authChanges identities a = foldl (\<lambda>a' user. onAuthStateChanged user a') a identities"

section \<open>View derivation\<close>

text \<open>
  An element of \<^verbatim>\<open>userStrains\<close> or \<^verbatim>\<open>communityStrains\<close>, with the fields the derived views
  read. A field the document does not have is \<open>None\<close> (JavaScript's \<^verbatim>\<open>undefined\<close>);
  calling a method on it throws a \<^verbatim>\<open>TypeError\<close>. The rating is a number in every record,
  an integer from 0 (unrated) to 5 in the data model, hence a natural number here.
\<close>

record strain =
  sid :: string
  strainName :: "string option"
  brand :: "string option"
  strainType :: "string option"
  rating :: nat
  effects :: "string list option"
  terpenes :: "string list option"

text \<open>
  \<^verbatim>\<open>String.prototype.toLowerCase\<close> is JavaScript's case mapping of Unicode text. The
  functions that call it take it as their first argument, \<open>toLowerCase\<close>, so whatever is
  proved of them holds for every case mapping, JavaScript's among them.
  \<^verbatim>\<open>String.prototype.includes\<close> is the substring test.
\<close>

fun includesJS :: "string \<Rightarrow> string \<Rightarrow> bool" where
  "includesJS [] needle = (needle = [])"
| "includesJS (c # cs) needle = (if prefix needle (c # cs) then True else includesJS cs needle)"

text \<open>
  The rating filter is the number 0 that \<^verbatim>\<open>useState\<close> puts there until the user picks an
  option of the select; from then on it is the option's value, a string of digits
  (\<^verbatim>\<open>e.target.value\<close>). \<^verbatim>\<open>rating === 0\<close> holds of the number 0 only, never of a string;
  \<^verbatim>\<open>strain.rating >= rating\<close> converts a string to the number it spells.
\<close>

datatype jsnumeric = Number nat | NumericString nat

fun toNumber :: "jsnumeric \<Rightarrow> nat" where
  "toNumber (Number n) = n"
| "toNumber (NumericString n) = n"

fun strictEquals0 :: "jsnumeric \<Rightarrow> bool" where
  "strictEquals0 (Number n) = (n = 0)"
| "strictEquals0 (NumericString n) = False"

record filters =
  ratingF :: jsnumeric
  potency :: string
  flavor :: string
  effectsF :: string
  brandF :: string
  typeF :: string
  terpeneF :: string
  location :: string

definition initialFilters :: filters where
  "initialFilters = \<lparr>ratingF = Number 0, potency = [], flavor = [], effectsF = [], brandF = [],
                      typeF = [], terpeneF = [], location = []\<rparr>"

definition matchesRating :: "filters \<Rightarrow> strain \<Rightarrow> bool" where
  "matchesRating f s = (if strictEquals0 (ratingF f) then True else toNumber (ratingF f) \<le> rating s)"

definition matchesEffects :: "filters \<Rightarrow> strain \<Rightarrow> error + bool" where
  "matchesEffects f s =
     (if effectsF f = [] then Inr True
      else (case effects s of None \<Rightarrow> Inl TypeError | Some es \<Rightarrow> Inr (effectsF f \<in> set es)))"

definition matchesBrand :: "(string \<Rightarrow> string) \<Rightarrow> filters \<Rightarrow> strain \<Rightarrow> error + bool" where
  "matchesBrand toLowerCase f s =
     (if brandF f = [] then Inr True
      else (case brand s of
              None \<Rightarrow> Inl TypeError
            | Some b \<Rightarrow> Inr (includesJS (toLowerCase b) (toLowerCase (brandF f)))))"

definition matchesType :: "filters \<Rightarrow> strain \<Rightarrow> bool" where
  "matchesType f s = (if typeF f = [] then True else strainType s = Some (typeF f))"

definition matchesTerpene :: "filters \<Rightarrow> strain \<Rightarrow> error + bool" where
  "matchesTerpene f s =
     (if terpeneF f = [] then Inr True
      else (case terpenes s of None \<Rightarrow> Inl TypeError | Some ts \<Rightarrow> Inr (terpeneF f \<in> set ts)))"

definition matchesSearch :: "(string \<Rightarrow> string) \<Rightarrow> string \<Rightarrow> strain \<Rightarrow> error + bool" where
  "matchesSearch toLowerCase searchFilter s =
     (if searchFilter = [] then Inr True
      else (case strainName s of
              None \<Rightarrow> Inl TypeError
            | Some n \<Rightarrow> Inr (includesJS (toLowerCase n) (toLowerCase searchFilter))))"

text \<open>
  The callback of \<^verbatim>\<open>filter\<close>: the six constants are computed one after the other, each
  before the \<^verbatim>\<open>return\<close>, so a throwing one throws whatever the others are.
\<close>

definition strainMatches ::
  "(string \<Rightarrow> string) \<Rightarrow> filters \<Rightarrow> string \<Rightarrow> strain \<Rightarrow> error + bool" where
  "strainMatches toLowerCase f searchFilter s =
     (case matchesEffects f s of
        Inl e \<Rightarrow> Inl e
      | Inr me \<Rightarrow>
     (case matchesBrand toLowerCase f s of
        Inl e \<Rightarrow> Inl e
      | Inr mb \<Rightarrow>
     (case matchesTerpene f s of
        Inl e \<Rightarrow> Inl e
      | Inr mt \<Rightarrow>
     (case matchesSearch toLowerCase searchFilter s of
        Inl e \<Rightarrow> Inl e
      | Inr ms \<Rightarrow>
          Inr (matchesRating f s \<and> me \<and> mb \<and> matchesType f s \<and> mt \<and> ms)))))"

text \<open>\<^verbatim>\<open>Array.prototype.filter\<close> with a callback that may throw: the first throw ends it.\<close>

fun filterJS :: "('a \<Rightarrow> error + bool) \<Rightarrow> 'a list \<Rightarrow> error + 'a list" where
  "filterJS p [] = Inr []"
| "filterJS p (x # xs) =
     (case p x of
        Inl e \<Rightarrow> Inl e
      | Inr b \<Rightarrow>
          (case filterJS p xs of
             Inl e \<Rightarrow> Inl e
           | Inr ys \<Rightarrow> Inr (if b then x # ys else ys)))"

text \<open>
  \<^verbatim>\<open>Array.prototype.sort\<close> with a comparator, which ECMAScript 2019 requires to be stable:
  an insertion sort that puts an element before the first one it does not compare greater
  than.
\<close>

fun insertBy :: "('a \<Rightarrow> 'a \<Rightarrow> int) \<Rightarrow> 'a \<Rightarrow> 'a list \<Rightarrow> 'a list" where
  "insertBy cmp x [] = [x]"
| "insertBy cmp x (y # ys) = (if cmp x y \<le> 0 then x # y # ys else y # insertBy cmp x ys)"

definition sortJS :: "('a \<Rightarrow> 'a \<Rightarrow> int) \<Rightarrow> 'a list \<Rightarrow> 'a list" where
  "sortJS cmp xs = foldr (insertBy cmp) xs []"

definition compareRating :: "strain \<Rightarrow> strain \<Rightarrow> int" where
  "compareRating a b = int (rating b) - int (rating a)"

definition dataToDisplay :: "string \<Rightarrow> strain list \<Rightarrow> strain list \<Rightarrow> strain list" where
  "dataToDisplay dataScope userStrains communityStrains =
     (if dataScope = ''mine'' then userStrains else communityStrains)"

definition filteredStrains ::
  "(string \<Rightarrow> string) \<Rightarrow> filters \<Rightarrow> string \<Rightarrow> strain list \<Rightarrow> error + strain list" where
  "filteredStrains toLowerCase f searchFilter displayed =
     (case filterJS (strainMatches toLowerCase f searchFilter) displayed of
        Inl e \<Rightarrow> Inl e
      | Inr xs \<Rightarrow> Inr (sortJS compareRating xs))"

subsection \<open>Average rating\<close>

text \<open>
  JavaScript numbers are IEEE 754 doubles. The ratings are small integers, so their sum is
  exact (as every integer below \<open>2 ^ 53\<close> is); the quotient \<^verbatim>\<open>total / userStrains.length\<close>
  is the exact quotient rounded to 53 significant bits, ties to even. A positive double is
  kept as a pair \<open>(m, s)\<close> standing for \<open>m / 2 ^ s\<close>, with \<open>2 ^ 52 \<le> m \<le> 2 ^ 53\<close>.
\<close>

function binaryExponent :: "nat \<Rightarrow> nat \<Rightarrow> nat \<Rightarrow> nat" where
  "binaryExponent t n s =
     (if t = 0 \<or> 2 ^ 52 * n \<le> t * 2 ^ s then s else binaryExponent t n (Suc s))"
  by pat_completeness auto
termination
proof (relation "measure (\<lambda>(t, n, s). 2 ^ 52 * n - t * 2 ^ s)")
  show "wf (measure (\<lambda>(t, n, s). 2 ^ 52 * n - t * 2 ^ s))"
    by simp
next
  fix t n s :: nat
  define x where "x = t * 2 ^ s"
  assume "\<not> (t = 0 \<or> 2 ^ 52 * n \<le> t * 2 ^ s)"
  then have "0 < x" and "x < 2 ^ 52 * n"
    by (simp_all add: x_def)
  moreover have "t * 2 ^ Suc s = 2 * x"
    by (simp add: x_def)
  ultimately have "2 ^ 52 * n - t * 2 ^ Suc s < 2 ^ 52 * n - x"
    by linarith
  then show "((t, n, Suc s), (t, n, s)) \<in> measure (\<lambda>(t, n, s). 2 ^ 52 * n - t * 2 ^ s)"
    by (simp add: x_def)
qed

definition roundHalfEven :: "nat \<Rightarrow> nat \<Rightarrow> nat" where
  "roundHalfEven a b =
     (if 2 * (a mod b) < b then a div b
      else if b < 2 * (a mod b) then a div b + 1
      else if even (a div b) then a div b else a div b + 1)"

definition divideJS :: "nat \<Rightarrow> nat \<Rightarrow> nat \<times> nat" where
  "divideJS t n = (roundHalfEven (t * 2 ^ binaryExponent t n 0) n, binaryExponent t n 0)"

text \<open>
  \<^verbatim>\<open>Number.prototype.toFixed(1)\<close>: the integer \<open>k\<close> for which \<open>k / 10\<close> is closest to the
  double, the larger one of two equally close, written with one digit after the point.
\<close>

fun decimal :: "nat \<Rightarrow> string" where
  "decimal n = (if n < 10 then [char_of (48 + n)] else decimal (n div 10) @ [char_of (48 + n mod 10)])"

definition tenths :: "nat \<times> nat \<Rightarrow> nat" where
  "tenths x = (case x of (m, s) \<Rightarrow> (20 * m + 2 ^ s) div 2 ^ Suc s)"

definition toFixed1 :: "nat \<times> nat \<Rightarrow> string" where
  "toFixed1 x = decimal (tenths x div 10) @ ''.'' @ decimal (tenths x mod 10)"

definition totalRating :: "strain list \<Rightarrow> nat" where
  "totalRating strains = foldl (\<lambda>sum s. sum + (if rating s = 0 then 0 else rating s)) 0 strains"

definition myAverageRating :: "strain list \<Rightarrow> jsval" where
  "myAverageRating userStrains =
     (if length userStrains = 0 then JNum 0
      else JStr (toFixed1 (divideJS (totalRating userStrains) (length userStrains))))"

definition communityAverageRating :: "strain list \<Rightarrow> jsval" where
  "communityAverageRating communityStrains =
     (if length communityStrains = 0 then JNum 0
      else JStr (toFixed1 (divideJS (totalRating communityStrains) (length communityStrains))))"

text \<open>
  The vocabulary of the statements about the average, for a total \<open>t\<close> of ratings over
  \<open>n\<close> entries. \<open>meanRoundedHalfUp\<close> is the mean \<open>t / n\<close> rounded to one decimal place,
  halves up, counted in tenths: \<open>\<lfloor>10 t / n + 1 / 2\<rfloor>\<close>. \<open>halfway\<close> says that the mean lies
  exactly halfway between two tenths. \<open>quotientBelow\<close> says that the double holding
  \<^verbatim>\<open>total / length\<close> is less than the mean.
\<close>

definition meanRoundedHalfUp :: "nat \<Rightarrow> nat \<Rightarrow> nat" where
  "meanRoundedHalfUp t n = (20 * t + n) div (2 * n)"

definition halfway :: "nat \<Rightarrow> nat \<Rightarrow> bool" where
  "halfway t n = ((20 * t) mod (2 * n) = n)"

definition quotientBelow :: "nat \<Rightarrow> nat \<Rightarrow> bool" where
  "quotientBelow t n = (fst (divideJS t n) * n < t * 2 ^ snd (divideJS t n))"

section \<open>The entry form\<close>

text \<open>
  The state \<^verbatim>\<open>formData\<close> of \<^verbatim>\<open>LogStrainScreen\<close> is the object later passed to
  \<^verbatim>\<open>logStrain\<close>: the record being edited, or the defaults of a new entry.
\<close>

definition defaultForm :: doc where
  "defaultForm = [''strainName'' \<mapsto> JStr [], ''productType'' \<mapsto> JStr ''Flower'',
                  ''purchasedLocation'' \<mapsto> JStr [], ''cost'' \<mapsto> JStr [],
                  ''effects'' \<mapsto> JArr [], ''rating'' \<mapsto> JNum 0, ''brand'' \<mapsto> JStr [],
                  ''type'' \<mapsto> JStr ''Hybrid'', ''terpenes'' \<mapsto> JArr []]"

definition initialForm :: "doc option \<Rightarrow> doc" where
  "initialForm initialStrain = (case initialStrain of None \<Rightarrow> defaultForm | Some d \<Rightarrow> d)"

definition handleChange :: "string \<Rightarrow> string \<Rightarrow> doc \<Rightarrow> doc" where
  "handleChange name v prev = prev(name \<mapsto> JStr v)"

definition handleRating :: "nat \<Rightarrow> doc \<Rightarrow> doc" where
  "handleRating r prev = prev(''rating'' \<mapsto> JNum (int r))"

definition handleEffectsToggle :: "string \<Rightarrow> doc \<Rightarrow> error + doc" where
  "handleEffectsToggle effect prev =
     (case prev ''effects'' of
        Some (JArr es) \<Rightarrow>
          Inr (prev(''effects'' \<mapsto>
                 JArr (if JStr effect \<in> set es then filter (\<lambda>e. e \<noteq> JStr effect) es
                       else es @ [JStr effect])))
      | Some (JStr s) \<Rightarrow>
          if includesJS s effect then Inl TypeError
          else Inr (prev(''effects'' \<mapsto> JArr (map (\<lambda>c. JStr [c]) s @ [JStr effect])))
      | _ \<Rightarrow> Inl TypeError)"

definition handleTerpenesSelect :: "string list \<Rightarrow> doc \<Rightarrow> doc" where
  "handleTerpenesSelect selectedOptions prev =
     (if length selectedOptions \<le> 3 then prev(''terpenes'' \<mapsto> JArr (map JStr selectedOptions))
      else prev)"

text \<open>
  The inputs wired to \<^verbatim>\<open>handleChange\<close>, by their \<^verbatim>\<open>name\<close> attribute; the terpene select
  has \<^verbatim>\<open>handleTerpenesSelect\<close> instead.
\<close>

datatype field = StrainName | Brand | ProductType | PurchasedLocation | Cost | StrainType

fun fieldName :: "field \<Rightarrow> string" where
  "fieldName StrainName = ''strainName''"
| "fieldName Brand = ''brand''"
| "fieldName ProductType = ''productType''"
| "fieldName PurchasedLocation = ''purchasedLocation''"
| "fieldName Cost = ''cost''"
| "fieldName StrainType = ''type''"

datatype event = Change field string | Rate nat | ToggleEffect string | SelectTerpenes "string list"

fun handleEvent :: "event \<Rightarrow> doc \<Rightarrow> error + doc" where
  "handleEvent (Change fld v) prev = Inr (handleChange (fieldName fld) v prev)"
| "handleEvent (Rate r) prev = Inr (handleRating r prev)"
| "handleEvent (ToggleEffect effect) prev = handleEffectsToggle effect prev"
| "handleEvent (SelectTerpenes selectedOptions) prev = Inr (handleTerpenesSelect selectedOptions prev)"

fun handleEvents :: "event list \<Rightarrow> doc \<Rightarrow> error + doc" where
  "handleEvents [] prev = Inr prev"
| "handleEvents (ev # evs) prev =
     (case handleEvent ev prev of Inl e \<Rightarrow> Inl e | Inr next \<Rightarrow> handleEvents evs next)"

text \<open>\<^verbatim>\<open>handleSubmit\<close>: \<^verbatim>\<open>logStrain(formData, initialStrain?.id)\<close>.\<close>

definition handleSubmit ::
  "env \<Rightarrow> doc option \<Rightarrow> doc \<Rightarrow> app \<times> firestore \<Rightarrow> app \<times> firestore" where
  "handleSubmit e initialStrain formData s =
     logStrain e formData
       (case initialStrain of
          None \<Rightarrow> None
        | Some d \<Rightarrow> (case d ''id'' of Some (JStr i) \<Rightarrow> Some i | _ \<Rightarrow> None)) s"

text \<open>The terpene list of a document has at most three entries.\<close>

definition terpenesWithinLimit :: "doc \<Rightarrow> bool" where
  "terpenesWithinLimit d = (case d ''terpenes'' of Some (JArr ts) \<Rightarrow> length ts \<le> 3 | _ \<Rightarrow> False)"

fun writesWithinLimit :: "request \<Rightarrow> bool" where
  "writesWithinLimit (SetDoc _ d _) = terpenesWithinLimit d"
| "writesWithinLimit (DeleteDoc _) = True"

section \<open>Sample data\<close>

definition sampleApp :: app where
  "sampleApp = \<lparr>db = Some Firestore, userId = Some ''u1'', userName = Some ''Tyren R. (u1...u1)'',
                isAuthReady = True, isAdmin = False, loading = False, currentPage = ''log''\<rparr>"

definition sampleEnv :: env where
  "sampleEnv = \<lparr>privateAutoId = ''p1'', createdAtNow = ''T1'', updatedAtNow = ''T1'',
                communityAutoId = ''c1'', contributedAtNow = ''T2''\<rparr>"

definition sampleInput :: doc where
  "sampleInput = [''strainName'' \<mapsto> JStr ''Blue Dream'', ''rating'' \<mapsto> JNum 4]"

fun acceptAll :: "request \<Rightarrow> bool" where
  "acceptAll _ = True"

fun acceptPrivate :: "request \<Rightarrow> bool" where
  "acceptPrivate q = (if onCommunity q then False else True)"

definition noUsers :: "string \<Rightarrow> string \<rightharpoonup> doc" where
  "noUsers = (\<lambda>_. Map.empty)"

definition emptyStore :: firestore where
  "emptyStore = \<lparr>users = noUsers, community = Map.empty, requests = [], accepts = acceptAll\<rparr>"

definition privateOnlyStore :: firestore where
  "privateOnlyStore = \<lparr>users = noUsers, community = Map.empty, requests = [], accepts = acceptPrivate\<rparr>"

text \<open>A store in which user \<open>u1\<close> logged one strain at time \<open>T0\<close>, with its community mirror.\<close>

definition loggedRecord :: doc where
  "loggedRecord = [''strainName'' \<mapsto> JStr ''Blue Dream'', ''rating'' \<mapsto> JNum 4,
                   ''userId'' \<mapsto> JStr ''u1'', ''createdAt'' \<mapsto> JStr ''T0'',
                   ''updatedAt'' \<mapsto> JStr ''T0'']"

definition loggedMirror :: doc where
  "loggedMirror = [''strainName'' \<mapsto> JStr ''Blue Dream'', ''rating'' \<mapsto> JNum 4,
                   ''originalDocId'' \<mapsto> JStr ''p0'', ''userId'' \<mapsto> JStr ''u1'',
                   ''contributedAt'' \<mapsto> JStr ''T0'']"

definition loggedStore :: firestore where
  "loggedStore = \<lparr>users = noUsers(''u1'' := [''p0'' \<mapsto> loggedRecord]),
                  community = [''c0'' \<mapsto> loggedMirror], requests = [], accepts = acceptAll\<rparr>"

definition ratingOnly :: doc where
  "ratingOnly = [''rating'' \<mapsto> JNum 5]"

text \<open>
  On strings of ASCII characters \<^verbatim>\<open>toLowerCase\<close> turns A to Z into a to z and keeps the
  rest; the sample records below are ASCII.
\<close>

definition asciiToLowerChar :: "char \<Rightarrow> char" where
  "asciiToLowerChar c =
     (if 65 \<le> (of_char c :: nat) \<and> (of_char c :: nat) \<le> 90
      then char_of ((of_char c :: nat) + 32) else c)"

definition asciiToLowerCase :: "string \<Rightarrow> string" where
  "asciiToLowerCase s = map asciiToLowerChar s"

definition blueDream :: strain where
  "blueDream = \<lparr>sid = ''p0'', strainName = Some ''Blue Dream'', brand = Some ''Cookies'',
                strainType = Some ''Indica'', rating = 4, effects = Some [''Relaxing'', ''Sleepy''],
                terpenes = Some [''Myrcene'', ''Pinene'']\<rparr>"

definition ogKush :: strain where
  "ogKush = \<lparr>sid = ''p1'', strainName = Some ''OG Kush'', brand = Some ''Raw Garden'',
             strainType = Some ''Hybrid'', rating = 2, effects = Some [''Euphoric''],
             terpenes = Some [''Limonene'']\<rparr>"

definition sourDiesel :: strain where
  "sourDiesel = \<lparr>sid = ''p2'', strainName = Some ''Sour Diesel'', brand = Some ''COOKIES'',
                 strainType = Some ''Indica'', rating = 4, effects = Some [''Sleepy'', ''Focus''],
                 terpenes = Some [''Myrcene'']\<rparr>"

text \<open>A community record some other client wrote without a brand.\<close>

definition noBrand :: strain where
  "noBrand = \<lparr>sid = ''c7'', strainName = Some ''Gelato'', brand = None,
              strainType = Some ''Hybrid'', rating = 5, effects = Some [],
              terpenes = Some []\<rparr>"

definition sampleFilters :: filters where
  "sampleFilters = \<lparr>ratingF = NumericString 3, potency = [], flavor = [], effectsF = ''Sleepy'',
                     brandF = ''cook'', typeF = ''Indica'', terpeneF = ''Myrcene'', location = []\<rparr>"

definition ratingThree :: filters where
  "ratingThree = \<lparr>ratingF = NumericString 3, potency = [], flavor = [], effectsF = [],
                   brandF = [], typeF = [], terpeneF = [], location = []\<rparr>"

definition brandCook :: filters where
  "brandCook = \<lparr>ratingF = Number 0, potency = [], flavor = [], effectsF = [],
                 brandF = ''cook'', typeF = [], terpeneF = [], location = []\<rparr>"

definition sampleEvents :: "event list" where
  "sampleEvents = [Change StrainName ''Blue Dream'', SelectTerpenes [''Myrcene'', ''Pinene''],
                   Rate 4, SelectTerpenes [''Myrcene'', ''Pinene'', ''Limonene'', ''Linalool''],
                   ToggleEffect ''Sleepy'']"

definition sampleForm :: doc where
  "sampleForm = [''strainName'' \<mapsto> JStr ''Blue Dream'', ''productType'' \<mapsto> JStr ''Flower'',
                 ''purchasedLocation'' \<mapsto> JStr [], ''cost'' \<mapsto> JStr [],
                 ''effects'' \<mapsto> JArr [JStr ''Sleepy''], ''rating'' \<mapsto> JNum 4,
                 ''brand'' \<mapsto> JStr [], ''type'' \<mapsto> JStr ''Hybrid'',
                 ''terpenes'' \<mapsto> JArr [JStr ''Myrcene'', JStr ''Pinene'']]"

definition oneStar :: strain where
  "oneStar = \<lparr>sid = ''s1'', strainName = Some ''Haze'', brand = Some [], strainType = Some ''Sativa'',
              rating = 1, effects = Some [], terpenes = Some []\<rparr>"

definition unrated :: strain where
  "unrated = \<lparr>sid = ''s0'', strainName = Some ''Kief'', brand = Some [], strainType = Some ''Hybrid'',
              rating = 0, effects = Some [], terpenes = Some []\<rparr>"

text \<open>Twenty records whose ratings sum to 7: the mean is exactly 0.35.\<close>

definition twentyStrains :: "strain list" where
  "twentyStrains = replicate 7 oneStar @ replicate 13 unrated"

text \<open>
  A private record of user \<open>u1\<close> with four terpenes, as the history list hands it to the
  edit form (the document with its id), and a store that holds it.
\<close>

definition fourTerpenes :: doc where
  "fourTerpenes = [''id'' \<mapsto> JStr ''p9'', ''strainName'' \<mapsto> JStr ''Gelato'',
                   ''effects'' \<mapsto> JArr [], ''rating'' \<mapsto> JNum 3, ''userId'' \<mapsto> JStr ''u1'',
                   ''terpenes'' \<mapsto> JArr [JStr ''Myrcene'', JStr ''Pinene'', JStr ''Limonene'',
                                       JStr ''Linalool'']]"

definition fourTerpenesStore :: firestore where
  "fourTerpenesStore = \<lparr>users = noUsers(''u1'' := [''p9'' \<mapsto> fourTerpenes]),
                        community = Map.empty, requests = [], accepts = acceptAll\<rparr>"

fun acceptNone :: "request \<Rightarrow> bool" where
  "acceptNone _ = False"

definition offlineStore :: firestore where
  "offlineStore = \<lparr>users = noUsers, community = Map.empty, requests = [], accepts = acceptNone\<rparr>"

text \<open>An environment in which the generated private id is one already in use.\<close>

definition collidingEnv :: env where
  "collidingEnv = \<lparr>privateAutoId = ''p0'', createdAtNow = ''T1'', updatedAtNow = ''T1'',
                   communityAutoId = ''c1'', contributedAtNow = ''T2''\<rparr>"

text \<open>Four records whose ratings sum to 1: the mean is exactly 0.25, which is a double.\<close>

definition fourStrains :: "strain list" where
  "fourStrains = [oneStar, unrated, unrated, unrated]"

section \<open>Properties of the mutation gateway\<close>

lemma accepts_store [simp]: "accepts (store r v fs) = accepts fs"
  by (simp add: store_def split: ref.splits)

text \<open>
  C6. While the backend handle is absent or the identity is null (or, being a falsy value to
  JavaScript, the empty string), \<^verbatim>\<open>logStrain\<close> (create and update alike) and
  \<^verbatim>\<open>deleteStrain\<close> return at their guard: the application state and the backend,
  including the list of requests it has received, are exactly what they were, so no backend
  call was attempted and neither collection was written.
\<close>

theorem unresolved_identity_rejected:
  "db a = None \<or> \<not> truthy (userId a) \<Longrightarrow>
     logStrain e strainData docId (a, fs) = (a, fs) \<and> deleteStrain i (a, fs) = (a, fs)"
  by (auto simp: logStrain_def deleteStrain_def split: option.splits)

theorem unresolved_identity_rejected_witness:
  "(db initialApp = None \<or> \<not> truthy (userId initialApp)) \<and>
   logStrain sampleEnv sampleInput None (initialApp, emptyStore) = (initialApp, emptyStore) \<and>
   logStrain sampleEnv sampleInput (Some ''p0'') (initialApp, loggedStore) = (initialApp, loggedStore) \<and>
   deleteStrain ''p0'' (initialApp, loggedStore) = (initialApp, loggedStore)"
  using unresolved_identity_rejected [of initialApp sampleEnv sampleInput None emptyStore "''p0''"]
    unresolved_identity_rejected [of initialApp sampleEnv sampleInput "Some ''p0''" loggedStore "''p0''"]
  by (simp add: initialApp_def)

lemma update_keeps_community:
  assumes "truthy docId" and "fs' = snd (logStrain e strainData docId (a, fs))"
  shows "community fs' = community fs \<and> list_all (\<lambda>q. onCommunity q = False) (sent fs fs')"
  using assms
  by (auto simp: logStrain_def setDoc_def store_def sent_def Let_def
      split: option.splits prod.splits sum.splits if_splits)

lemma delete_keeps_community:
  assumes "fs' = snd (deleteStrain i (a, fs))"
  shows "community fs' = community fs \<and> list_all (\<lambda>q. onCommunity q = False) (sent fs fs')"
  using assms
  by (auto simp: deleteStrain_def deleteDoc_def store_def sent_def Let_def
      split: option.splits prod.splits sum.splits if_splits)

lemma delete_private_effect:
  "users (snd (deleteStrain i (a, fs))) u j =
      (if db a \<noteq> None \<and> truthy (userId a) \<and> userId a = Some u \<and> j = i \<and>
          accepts fs (DeleteDoc (PrivateRef u i))
       then None else users fs u j)"
  by (auto simp: deleteStrain_def deleteDoc_def store_def Let_def
      split: option.splits prod.splits sum.splits if_splits)

text \<open>
  C5. An update (\<^verbatim>\<open>logStrain\<close> with a document id) and a delete leave the community
  collection exactly as it was, whatever the backend answers: no community document is
  added, changed or removed, and none of the requests sent addresses the community
  collection. A delete changes the private collections in one place at most: the document
  of that id of the current user is gone when the backend accepts the request, and every
  other private document is as before.
\<close>

theorem update_delete_keep_community:
  "(truthy docId \<longrightarrow>
      community (snd (logStrain e strainData docId (a, fs))) = community fs \<and>
      list_all (\<lambda>q. onCommunity q = False)
         (sent fs (snd (logStrain e strainData docId (a, fs))))) \<and>
   community (snd (deleteStrain i (a, fs))) = community fs \<and>
   list_all (\<lambda>q. onCommunity q = False) (sent fs (snd (deleteStrain i (a, fs)))) \<and>
   (\<forall>u j. users (snd (deleteStrain i (a, fs))) u j =
      (if db a \<noteq> None \<and> truthy (userId a) \<and> userId a = Some u \<and> j = i \<and>
          accepts fs (DeleteDoc (PrivateRef u i))
       then None else users fs u j))"
  using update_keeps_community [OF _ refl, of docId e strainData a fs]
    delete_keeps_community [OF refl, of i a fs] delete_private_effect [of i a fs]
  by blast

theorem update_delete_keep_community_witness:
  "truthy (Some ''p0'') \<and>
   community (snd (logStrain sampleEnv ratingOnly (Some ''p0'') (sampleApp, loggedStore)))
     = [''c0'' \<mapsto> loggedMirror] \<and>
   community (snd (deleteStrain ''p0'' (sampleApp, loggedStore))) = [''c0'' \<mapsto> loggedMirror] \<and>
   users (snd (deleteStrain ''p0'' (sampleApp, loggedStore))) ''u1'' ''p0'' = None"
proof -
  have h: "truthy (Some ''p0'')"
    by simp
  have c: "community loggedStore = [''c0'' \<mapsto> loggedMirror]"
    by (simp add: loggedStore_def)
  have d: "db sampleApp \<noteq> None \<and> truthy (userId sampleApp) \<and> userId sampleApp = Some ''u1'' \<and>
           accepts loggedStore (DeleteDoc (PrivateRef ''u1'' ''p0''))"
    by (simp add: sampleApp_def loggedStore_def)
  note t = update_delete_keep_community
    [of "Some ''p0''" sampleEnv ratingOnly sampleApp loggedStore "''p0''"]
  from t h have "community (snd (logStrain sampleEnv ratingOnly (Some ''p0'') (sampleApp, loggedStore)))
      = community loggedStore"
    by blast
  moreover from t have "community (snd (deleteStrain ''p0'' (sampleApp, loggedStore)))
      = community loggedStore"
    by blast
  moreover have "users (snd (deleteStrain ''p0'' (sampleApp, loggedStore))) ''u1'' ''p0'' = None"
  proof -
    from t have "users (snd (deleteStrain ''p0'' (sampleApp, loggedStore))) ''u1'' ''p0'' =
      (if db sampleApp \<noteq> None \<and> truthy (userId sampleApp) \<and> userId sampleApp = Some ''u1'' \<and>
          ''p0'' = ''p0'' \<and> accepts loggedStore (DeleteDoc (PrivateRef ''u1'' ''p0''))
       then None else users loggedStore ''u1'' ''p0'')"
      by blast
    with d show ?thesis
      by simp
  qed
  ultimately show ?thesis
    using h c by simp
qed

lemma create_private_effect:
  assumes "db a = Some h" and "userId a = Some uid" and "truthy (userId a)"
    and "truthy docId = False"
    and "accepts fs (SetDoc (PrivateRef uid (privateAutoId e)) (privateData e uid strainData) True)"
    and "users fs uid (privateAutoId e) = None"
  shows "users (snd (logStrain e strainData docId (a, fs)))
           = (users fs)(uid := (users fs uid)(privateAutoId e \<mapsto> privateData e uid strainData))"
  using assms
  by (cases docId)
     (simp_all add: logStrain_def setDoc_def store_def lookup_def Let_def split: prod.splits)

lemma create_community_effect:
  assumes "db a = Some h" and "userId a = Some uid" and "truthy (userId a)"
    and "truthy docId = False"
    and "accepts fs (SetDoc (PrivateRef uid (privateAutoId e)) (privateData e uid strainData) True)"
  shows "community (snd (logStrain e strainData docId (a, fs)))
           = (if accepts fs (SetDoc (CommunityRef (communityAutoId e))
                               (communityData e uid (privateAutoId e) strainData) False)
              then (community fs)(communityAutoId e \<mapsto>
                      communityData e uid (privateAutoId e) strainData)
              else community fs)"
  using assms
  by (cases docId)
     (simp_all add: logStrain_def setDoc_def store_def lookup_def Let_def split: prod.splits)

lemma create_private_rejected:
  assumes "db a = Some h" and "userId a = Some uid" and "truthy (userId a)"
    and "truthy docId = False"
    and "accepts fs (SetDoc (PrivateRef uid (privateAutoId e)) (privateData e uid strainData) True)
           = False"
  shows "users (snd (logStrain e strainData docId (a, fs))) = users fs \<and>
         community (snd (logStrain e strainData docId (a, fs))) = community fs"
  using assms
  by (cases docId)
     (simp_all add: logStrain_def setDoc_def store_def lookup_def Let_def split: prod.splits)

lemma privateData_fields:
  "privateData e uid strainData ''userId'' = Some (JStr uid) \<and>
   privateData e uid strainData ''createdAt'' = Some (JStr (createdAtNow e)) \<and>
   privateData e uid strainData ''updatedAt'' = Some (JStr (updatedAtNow e)) \<and>
   (\<forall>k. k \<notin> {''userId'', ''createdAt'', ''updatedAt''} \<longrightarrow>
        privateData e uid strainData k = strainData k)"
  by (simp add: privateData_def map_add_def)

lemma communityData_fields:
  "communityData e uid i strainData ''originalDocId'' = Some (JStr i) \<and>
   communityData e uid i strainData ''userId'' = Some (JStr uid) \<and>
   communityData e uid i strainData ''contributedAt'' = Some (JStr (contributedAtNow e)) \<and>
   (\<forall>k. k \<notin> {''originalDocId'', ''userId'', ''contributedAt''} \<longrightarrow>
        communityData e uid i strainData k = strainData k)"
  by (simp add: communityData_def map_add_def)

text \<open>
  C1, as the code has it. Take a create (\<^verbatim>\<open>logStrain\<close> with no document id) under a
  resolved identity. If the backend accepts the private write and the generated private id
  is not in use, exactly one document is added to the user's private collection and nothing
  else in it changes; the document is the input with \<open>userId\<close> (the session identity),
  \<open>createdAt\<close> and \<open>updatedAt\<close> stamped over it, so every other field has the input's
  value. If the backend also accepts the community write and the generated community id is
  not in use, exactly one document is added to the community collection: the input with
  \<open>originalDocId\<close> (the id of the new private document), \<open>userId\<close> and \<open>contributedAt\<close>
  stamped over it. If the backend rejects the community write, the community collection is
  unchanged; if it rejects the private write, neither collection changes.
\<close>

theorem create_writes_record_and_mirror:
  assumes "db a = Some h" and "userId a = Some uid" and "truthy (userId a)"
    and "truthy docId = False"
    and "fs' = snd (logStrain e strainData docId (a, fs))"
    and "private = SetDoc (PrivateRef uid (privateAutoId e)) (privateData e uid strainData) True"
    and "mirror = SetDoc (CommunityRef (communityAutoId e))
                    (communityData e uid (privateAutoId e) strainData) False"
  shows "(accepts fs private \<longrightarrow> users fs uid (privateAutoId e) = None \<longrightarrow>
            (\<exists>r. users fs' = (users fs)(uid := (users fs uid)(privateAutoId e \<mapsto> r)) \<and>
                 r ''userId'' = Some (JStr uid) \<and>
                 (\<forall>k. k \<notin> {''userId'', ''createdAt'', ''updatedAt''} \<longrightarrow> r k = strainData k)) \<and>
            dom (users fs' uid) - dom (users fs uid) = {privateAutoId e}) \<and>
         (accepts fs private \<longrightarrow> accepts fs mirror \<longrightarrow> community fs (communityAutoId e) = None \<longrightarrow>
            (\<exists>m. community fs' = (community fs)(communityAutoId e \<mapsto> m) \<and>
                 m ''originalDocId'' = Some (JStr (privateAutoId e)) \<and>
                 m ''contributedAt'' = Some (JStr (contributedAtNow e)) \<and>
                 (\<forall>k. k \<notin> {''originalDocId'', ''userId'', ''contributedAt''} \<longrightarrow>
                      m k = strainData k)) \<and>
            dom (community fs') - dom (community fs) = {communityAutoId e}) \<and>
         (accepts fs private \<longrightarrow> accepts fs mirror = False \<longrightarrow> community fs' = community fs) \<and>
         (accepts fs private = False \<longrightarrow> users fs' = users fs \<and> community fs' = community fs)"
proof -
  have 1: "(\<exists>r. users fs' = (users fs)(uid := (users fs uid)(privateAutoId e \<mapsto> r)) \<and>
                 r ''userId'' = Some (JStr uid) \<and>
                 (\<forall>k. k \<notin> {''userId'', ''createdAt'', ''updatedAt''} \<longrightarrow> r k = strainData k)) \<and>
            dom (users fs' uid) - dom (users fs uid) = {privateAutoId e}"
    if p: "accepts fs private" and u: "users fs uid (privateAutoId e) = None"
  proof -
    have eq: "users fs'
        = (users fs)(uid := (users fs uid)(privateAutoId e \<mapsto> privateData e uid strainData))"
      using create_private_effect [OF assms(1-4) _ u] p assms(5,6) by simp
    have "\<exists>r. users fs' = (users fs)(uid := (users fs uid)(privateAutoId e \<mapsto> r)) \<and>
                 r ''userId'' = Some (JStr uid) \<and>
                 (\<forall>k. k \<notin> {''userId'', ''createdAt'', ''updatedAt''} \<longrightarrow> r k = strainData k)"
      using eq privateData_fields [of e uid strainData]
      by (intro exI [of _ "privateData e uid strainData"]) simp
    moreover have "dom (users fs' uid) - dom (users fs uid) = {privateAutoId e}"
      using eq u by (auto simp: dom_def)
    ultimately show ?thesis
      by (rule conjI)
  qed
  have c: "community fs'
        = (if accepts fs mirror
           then (community fs)(communityAutoId e \<mapsto>
                   communityData e uid (privateAutoId e) strainData)
           else community fs)"
    if p: "accepts fs private"
    using create_community_effect [OF assms(1-4)] p assms(5,6,7) by simp
  have 2: "(\<exists>m. community fs' = (community fs)(communityAutoId e \<mapsto> m) \<and>
                 m ''originalDocId'' = Some (JStr (privateAutoId e)) \<and>
                 m ''contributedAt'' = Some (JStr (contributedAtNow e)) \<and>
                 (\<forall>k. k \<notin> {''originalDocId'', ''userId'', ''contributedAt''} \<longrightarrow>
                      m k = strainData k)) \<and>
            dom (community fs') - dom (community fs) = {communityAutoId e}"
    if p: "accepts fs private" and m: "accepts fs mirror"
      and u: "community fs (communityAutoId e) = None"
  proof -
    have eq: "community fs' = (community fs)(communityAutoId e \<mapsto>
                   communityData e uid (privateAutoId e) strainData)"
      using c [OF p] m by simp
    have "\<exists>m. community fs' = (community fs)(communityAutoId e \<mapsto> m) \<and>
                 m ''originalDocId'' = Some (JStr (privateAutoId e)) \<and>
                 m ''contributedAt'' = Some (JStr (contributedAtNow e)) \<and>
                 (\<forall>k. k \<notin> {''originalDocId'', ''userId'', ''contributedAt''} \<longrightarrow>
                      m k = strainData k)"
      using eq communityData_fields [of e uid "privateAutoId e" strainData]
      by (intro exI [of _ "communityData e uid (privateAutoId e) strainData"]) simp
    moreover have "dom (community fs') - dom (community fs) = {communityAutoId e}"
      using eq u by (auto simp: dom_def)
    ultimately show ?thesis
      by (rule conjI)
  qed
  have 3: "community fs' = community fs" if "accepts fs private" and "accepts fs mirror = False"
    using c that by simp
  have 4: "users fs' = users fs \<and> community fs' = community fs" if "accepts fs private = False"
    using create_private_rejected [OF assms(1-4)] that assms(5,6) by simp
  from 1 2 3 4 show ?thesis
    by blast
qed

theorem create_writes_record_and_mirror_witness:
  "db sampleApp = Some Firestore \<and> userId sampleApp = Some ''u1'' \<and> truthy (userId sampleApp) \<and>
   truthy None = False \<and>
   accepts emptyStore (SetDoc (PrivateRef ''u1'' (privateAutoId sampleEnv))
                         (privateData sampleEnv ''u1'' sampleInput) True) \<and>
   accepts emptyStore (SetDoc (CommunityRef (communityAutoId sampleEnv))
                         (communityData sampleEnv ''u1'' (privateAutoId sampleEnv) sampleInput) False) \<and>
   users emptyStore ''u1'' (privateAutoId sampleEnv) = None \<and>
   community emptyStore (communityAutoId sampleEnv) = None \<and>
   dom (users (snd (logStrain sampleEnv sampleInput None (sampleApp, emptyStore))) ''u1'') = {''p1''} \<and>
   dom (community (snd (logStrain sampleEnv sampleInput None (sampleApp, emptyStore)))) = {''c1''} \<and>
   accepts privateOnlyStore (SetDoc (PrivateRef ''u1'' (privateAutoId sampleEnv))
                         (privateData sampleEnv ''u1'' sampleInput) True) \<and>
   accepts privateOnlyStore (SetDoc (CommunityRef (communityAutoId sampleEnv))
                         (communityData sampleEnv ''u1'' (privateAutoId sampleEnv) sampleInput) False)
     = False \<and>
   community (snd (logStrain sampleEnv sampleInput None (sampleApp, privateOnlyStore)))
     = community privateOnlyStore \<and>
   accepts offlineStore (SetDoc (PrivateRef ''u1'' (privateAutoId sampleEnv))
                         (privateData sampleEnv ''u1'' sampleInput) True) = False \<and>
   users (snd (logStrain sampleEnv sampleInput None (sampleApp, offlineStore))) = users offlineStore \<and>
   community (snd (logStrain sampleEnv sampleInput None (sampleApp, offlineStore)))
     = community offlineStore"
proof -
  have h1: "db sampleApp = Some Firestore" and h2: "userId sampleApp = Some ''u1''"
    and h3: "truthy (userId sampleApp)"
    by (simp_all add: sampleApp_def)
  have h4: "truthy None = False"
    by simp
  have h5: "accepts emptyStore (SetDoc (PrivateRef ''u1'' (privateAutoId sampleEnv))
                         (privateData sampleEnv ''u1'' sampleInput) True)"
    and h6: "accepts emptyStore (SetDoc (CommunityRef (communityAutoId sampleEnv))
                         (communityData sampleEnv ''u1'' (privateAutoId sampleEnv) sampleInput) False)"
    and h7: "users emptyStore ''u1'' (privateAutoId sampleEnv) = None"
    and h8: "community emptyStore (communityAutoId sampleEnv) = None"
    by (simp_all add: emptyStore_def noUsers_def)
  have e: "dom (users emptyStore ''u1'') = {}" "dom (community emptyStore) = {}"
    "privateAutoId sampleEnv = ''p1''" "communityAutoId sampleEnv = ''c1''"
    by (simp_all add: emptyStore_def noUsers_def sampleEnv_def)
  note accepted = create_writes_record_and_mirror
      [where e = sampleEnv and strainData = sampleInput and fs = emptyStore,
       OF h1 h2 h3 h4 refl refl refl]
  have "dom (users (snd (logStrain sampleEnv sampleInput None (sampleApp, emptyStore))) ''u1'')
       - dom (users emptyStore ''u1'') = {privateAutoId sampleEnv}"
    by (rule accepted [THEN conjunct1, THEN mp, THEN mp, OF h5 h7, THEN conjunct2])
  with e have r1: "dom (users (snd (logStrain sampleEnv sampleInput None (sampleApp, emptyStore))) ''u1'')
       = {''p1''}"
    by simp
  have "dom (community (snd (logStrain sampleEnv sampleInput None (sampleApp, emptyStore))))
       - dom (community emptyStore) = {communityAutoId sampleEnv}"
    by (rule accepted [THEN conjunct2, THEN conjunct1, THEN mp, THEN mp, THEN mp, OF h5 h6 h8,
          THEN conjunct2])
  with e have r2: "dom (community (snd (logStrain sampleEnv sampleInput None (sampleApp, emptyStore))))
       = {''c1''}"
    by simp
  have p1: "accepts privateOnlyStore (SetDoc (PrivateRef ''u1'' (privateAutoId sampleEnv))
                         (privateData sampleEnv ''u1'' sampleInput) True)"
    and p2: "accepts privateOnlyStore (SetDoc (CommunityRef (communityAutoId sampleEnv))
                         (communityData sampleEnv ''u1'' (privateAutoId sampleEnv) sampleInput) False)
     = False"
    by (simp_all add: privateOnlyStore_def)
  note mirrorRejected = create_writes_record_and_mirror
      [where e = sampleEnv and strainData = sampleInput and fs = privateOnlyStore,
       OF h1 h2 h3 h4 refl refl refl]
  have r3: "community (snd (logStrain sampleEnv sampleInput None (sampleApp, privateOnlyStore)))
     = community privateOnlyStore"
    by (rule mirrorRejected [THEN conjunct2, THEN conjunct2, THEN conjunct1, THEN mp, THEN mp,
          OF p1 p2])
  have o1: "accepts offlineStore (SetDoc (PrivateRef ''u1'' (privateAutoId sampleEnv))
                         (privateData sampleEnv ''u1'' sampleInput) True) = False"
    by (simp add: offlineStore_def)
  note allRejected = create_writes_record_and_mirror
      [where e = sampleEnv and strainData = sampleInput and fs = offlineStore,
       OF h1 h2 h3 h4 refl refl refl]
  note r4 = allRejected [THEN conjunct2, THEN conjunct2, THEN conjunct2, THEN mp, OF o1]
  show ?thesis
    using h1 h2 h3 h4 h5 h6 h7 h8 r1 r2 p1 p2 r3 o1 r4 [THEN conjunct1] r4 [THEN conjunct2]
    by (intro conjI) assumption+
qed

text \<open>
  C1 as stated fails in three ways. With the community write rejected, the create leaves the
  new private document and no mirror; with the private write rejected it leaves nothing.
  With both writes accepted, the stored document has the field \<open>userId\<close>, which the input
  does not have, so the stored fields other than the timestamps are not the input's. With a
  generated id that is already in use, the write merges into the document of that id and
  the collection gains no record.
\<close>

theorem create_departs_from_claim:
  "db sampleApp = Some Firestore \<and> userId sampleApp = Some ''u1'' \<and>
   users (snd (logStrain sampleEnv sampleInput None (sampleApp, privateOnlyStore))) ''u1'' ''p1''
     = Some (privateData sampleEnv ''u1'' sampleInput) \<and>
   dom (community (snd (logStrain sampleEnv sampleInput None (sampleApp, privateOnlyStore)))) = {} \<and>
   dom (users (snd (logStrain sampleEnv sampleInput None (sampleApp, offlineStore))) ''u1'') = {} \<and>
   dom (community (snd (logStrain sampleEnv sampleInput None (sampleApp, offlineStore)))) = {} \<and>
   users (snd (logStrain sampleEnv sampleInput None (sampleApp, emptyStore))) ''u1'' ''p1''
     = Some (privateData sampleEnv ''u1'' sampleInput) \<and>
   privateData sampleEnv ''u1'' sampleInput ''userId'' = Some (JStr ''u1'') \<and>
   sampleInput ''userId'' = None \<and>
   dom (users loggedStore ''u1'') = {''p0''} \<and>
   dom (users (snd (logStrain collidingEnv sampleInput None (sampleApp, loggedStore))) ''u1'')
     = {''p0''}"
proof -
  have a: "db sampleApp = Some Firestore" "userId sampleApp = Some ''u1''"
    by (simp_all add: sampleApp_def)
  have 1: "users (snd (logStrain sampleEnv sampleInput None (sampleApp, privateOnlyStore))) ''u1'' ''p1''
     = Some (privateData sampleEnv ''u1'' sampleInput) \<and>
   dom (community (snd (logStrain sampleEnv sampleInput None (sampleApp, privateOnlyStore)))) = {}"
    by (simp add: logStrain_def setDoc_def store_def lookup_def a privateOnlyStore_def
        noUsers_def sampleEnv_def Let_def)
  have 0: "dom (users (snd (logStrain sampleEnv sampleInput None (sampleApp, offlineStore))) ''u1'') = {} \<and>
   dom (community (snd (logStrain sampleEnv sampleInput None (sampleApp, offlineStore)))) = {}"
    by (simp add: logStrain_def setDoc_def store_def lookup_def a offlineStore_def
        noUsers_def sampleEnv_def Let_def)
  have 2: "users (snd (logStrain sampleEnv sampleInput None (sampleApp, emptyStore))) ''u1'' ''p1''
     = Some (privateData sampleEnv ''u1'' sampleInput)"
    by (simp add: logStrain_def setDoc_def store_def lookup_def a emptyStore_def
        noUsers_def sampleEnv_def Let_def)
  have 3: "privateData sampleEnv ''u1'' sampleInput ''userId'' = Some (JStr ''u1'')"
    "sampleInput ''userId'' = None"
    by (simp_all add: privateData_def sampleInput_def)
  have 4: "dom (users loggedStore ''u1'') = {''p0''}"
    by (simp add: loggedStore_def)
  have 5: "dom (users (snd (logStrain collidingEnv sampleInput None (sampleApp, loggedStore))) ''u1'')
     = {''p0''}"
    by (simp add: logStrain_def setDoc_def store_def lookup_def a loggedStore_def
        noUsers_def collidingEnv_def Let_def)
  from a 0 1 2 3 4 5 show ?thesis
    by simp
qed

text \<open>
  C2 at a concrete update. The stored document was created at \<open>T0\<close>; an update at \<open>T1\<close>
  whose input has the rating only (no \<open>userId\<close>) keeps \<open>userId\<close> and the fields the input
  does not name, sets \<open>updatedAt\<close> to \<open>T1\<close>, and sets \<open>createdAt\<close> to \<open>T1\<close> as well:
  \<^verbatim>\<open>logStrain\<close> stamps \<open>createdAt\<close> on every write.
\<close>

theorem update_overwrites_createdAt:
  "users loggedStore ''u1'' ''p0'' = Some loggedRecord \<and>
   loggedRecord ''createdAt'' = Some (JStr ''T0'') \<and>
   ratingOnly ''userId'' = None \<and>
   users (snd (logStrain sampleEnv ratingOnly (Some ''p0'') (sampleApp, loggedStore))) ''u1'' ''p0''
     = Some [''strainName'' \<mapsto> JStr ''Blue Dream'', ''rating'' \<mapsto> JNum 5,
             ''userId'' \<mapsto> JStr ''u1'', ''createdAt'' \<mapsto> JStr ''T1'',
             ''updatedAt'' \<mapsto> JStr ''T1'']"
  by (auto simp: logStrain_def setDoc_def store_def lookup_def sampleApp_def loggedStore_def
      noUsers_def sampleEnv_def loggedRecord_def ratingOnly_def privateData_def map_add_def
      fun_eq_iff Let_def)

text \<open>
  X1. What an accepted update does to an existing private record: the stored document becomes
  the old one overlaid with the input and the three stamps. So \<open>userId\<close> is the session
  identity, \<open>updatedAt\<close> and \<open>createdAt\<close> are both the time of the write, every other field
  the input names has the input's value, and every field it does not name is kept.
\<close>

theorem update_merges_and_restamps:
  assumes "db a = Some h" and "userId a = Some uid" and "truthy (userId a)"
    and "truthy (Some i)"
    and "accepts fs (SetDoc (PrivateRef uid i) (privateData e uid strainData) True)"
    and "users fs uid i = Some old"
    and "users (snd (logStrain e strainData (Some i) (a, fs))) uid i = Some new"
  shows "new = old ++ privateData e uid strainData \<and>
         new ''userId'' = Some (JStr uid) \<and>
         new ''updatedAt'' = Some (JStr (updatedAtNow e)) \<and>
         new ''createdAt'' = Some (JStr (createdAtNow e)) \<and>
         (\<forall>k. k \<notin> {''userId'', ''createdAt'', ''updatedAt''} \<longrightarrow>
              new k = (case strainData k of None \<Rightarrow> old k | Some v \<Rightarrow> Some v))"
proof -
  have "users (snd (logStrain e strainData (Some i) (a, fs))) uid i
          = Some (old ++ privateData e uid strainData)"
    using assms(1-6) by (simp add: logStrain_def setDoc_def store_def lookup_def Let_def)
  with assms(7) have n: "new = old ++ privateData e uid strainData"
    by simp
  show ?thesis
    unfolding n using privateData_fields [of e uid strainData]
    by (auto simp: map_add_def split: option.splits)
qed

theorem update_merges_and_restamps_witness:
  "db sampleApp = Some Firestore \<and> userId sampleApp = Some ''u1'' \<and> truthy (userId sampleApp) \<and>
   truthy (Some ''p0'') \<and>
   accepts loggedStore (SetDoc (PrivateRef ''u1'' ''p0'') (privateData sampleEnv ''u1'' ratingOnly) True) \<and>
   users loggedStore ''u1'' ''p0'' = Some loggedRecord \<and>
   users (snd (logStrain sampleEnv ratingOnly (Some ''p0'') (sampleApp, loggedStore))) ''u1'' ''p0''
     = Some (loggedRecord ++ privateData sampleEnv ''u1'' ratingOnly) \<and>
   (loggedRecord ++ privateData sampleEnv ''u1'' ratingOnly) ''createdAt''
     = Some (JStr (createdAtNow sampleEnv))"
proof -
  have h: "db sampleApp = Some Firestore" "userId sampleApp = Some ''u1''" "truthy (userId sampleApp)"
    "truthy (Some ''p0'')"
    "accepts loggedStore (SetDoc (PrivateRef ''u1'' ''p0'') (privateData sampleEnv ''u1'' ratingOnly) True)"
    "users loggedStore ''u1'' ''p0'' = Some loggedRecord"
    by (simp_all add: sampleApp_def loggedStore_def noUsers_def)
  have v: "users (snd (logStrain sampleEnv ratingOnly (Some ''p0'') (sampleApp, loggedStore))) ''u1'' ''p0''
     = Some (loggedRecord ++ privateData sampleEnv ''u1'' ratingOnly)"
    by (simp add: logStrain_def setDoc_def store_def lookup_def Let_def sampleApp_def loggedStore_def
        noUsers_def)
  from update_merges_and_restamps [OF h v] h v show ?thesis
    by blast
qed

section \<open>Properties of the view derivation\<close>

lemma filterJS_Inr: "filterJS p xs = Inr ys \<Longrightarrow> ys = filter (\<lambda>x. p x = Inr True) xs \<and> (\<forall>x\<in>set xs. \<exists>b. p x = Inr b)"
  by (induction xs arbitrary: ys) (auto split: sum.splits if_splits)

lemma filterJS_total: "(\<forall>x\<in>set xs. \<exists>b. p x = Inr b) \<Longrightarrow> \<exists>ys. filterJS p xs = Inr ys"
  by (induction xs) (auto split: sum.splits)

lemma set_insertBy: "set (insertBy cmp x xs) = insert x (set xs)"
  by (induction xs) auto

lemma set_sortJS: "set (sortJS cmp xs) = set xs"
  by (induction xs) (auto simp: sortJS_def set_insertBy)

lemma sorted_insertBy:
  "sorted_wrt (\<lambda>a b. rating b \<le> rating a) xs \<Longrightarrow> sorted_wrt (\<lambda>a b. rating b \<le> rating a) (insertBy compareRating x xs)"
  by (induction xs) (auto simp: set_insertBy compareRating_def)

lemma sorted_sortJS: "sorted_wrt (\<lambda>a b. rating b \<le> rating a) (sortJS compareRating xs)"
proof (induction xs)
  case Nil show ?case by (simp add: sortJS_def)
next
  case (Cons x xs)
  then show ?case using sorted_insertBy[of "sortJS compareRating xs" x] by (simp add: sortJS_def)
qed

lemma filter_insertBy:
  "sorted_wrt (\<lambda>a b. rating b \<le> rating a) xs \<Longrightarrow>
   filter (\<lambda>s. rating s = k) (insertBy compareRating x xs) = (if rating x = k then x # filter (\<lambda>s. rating s = k) xs else filter (\<lambda>s. rating s = k) xs)"
  by (induction xs) (auto simp: compareRating_def)

lemma stable_sortJS: "filter (\<lambda>s. rating s = k) (sortJS compareRating xs) = filter (\<lambda>s. rating s = k) xs"
proof (induction xs)
  case Nil show ?case by (simp add: sortJS_def)
next
  case (Cons x xs)
  have "sortJS compareRating (x # xs) = insertBy compareRating x (sortJS compareRating xs)" by (simp add: sortJS_def)
  then show ?case using Cons filter_insertBy[OF sorted_sortJS, of k x xs] by simp
qed

lemma includes_iff: "includesJS hay needle \<longleftrightarrow> sublist needle hay"
  by (induction hay) (auto simp: sublist_Cons_right)


lemma strainMatches_Inl:
  "(\<exists>e. strainMatches toLowerCase f q s = Inl e) \<longleftrightarrow>
     (effectsF f \<noteq> [] \<and> effects s = None) \<or> (brandF f \<noteq> [] \<and> brand s = None) \<or>
     (terpeneF f \<noteq> [] \<and> terpenes s = None) \<or> (q \<noteq> [] \<and> strainName s = None)"
  by (auto simp: strainMatches_def matchesEffects_def matchesBrand_def matchesTerpene_def
      matchesSearch_def split: sum.splits option.splits if_splits)

lemma strainMatches_TypeError: "strainMatches toLowerCase f q s = Inl e \<Longrightarrow> e = TypeError"
  by (auto simp: strainMatches_def matchesEffects_def matchesBrand_def matchesTerpene_def
      matchesSearch_def split: sum.splits option.splits if_splits)

lemma strainMatches_True:
  "strainMatches toLowerCase f q s = Inr True \<longleftrightarrow>
     (toNumber (ratingF f) = 0 \<or> toNumber (ratingF f) \<le> rating s) \<and>
     (effectsF f = [] \<or> (\<exists>es. effects s = Some es \<and> effectsF f \<in> set es)) \<and>
     (brandF f = [] \<or> (\<exists>b. brand s = Some b \<and> sublist (toLowerCase (brandF f)) (toLowerCase b))) \<and>
     (typeF f = [] \<or> strainType s = Some (typeF f)) \<and>
     (terpeneF f = [] \<or> (\<exists>ts. terpenes s = Some ts \<and> terpeneF f \<in> set ts)) \<and>
     (q = [] \<or> (\<exists>n. strainName s = Some n \<and> sublist (toLowerCase q) (toLowerCase n)))"
proof -
  have r: "matchesRating f s \<longleftrightarrow> toNumber (ratingF f) = 0 \<or> toNumber (ratingF f) \<le> rating s"
    by (cases "ratingF f") (auto simp: matchesRating_def)
  show ?thesis
    unfolding strainMatches_def matchesEffects_def matchesBrand_def matchesTerpene_def
      matchesSearch_def matchesType_def r includes_iff
    by (auto split: sum.splits option.splits if_splits)
qed

lemma filterJS_Inl: "filterJS p xs = Inl e \<Longrightarrow> \<exists>x\<in>set xs. p x = Inl e"
  by (induction xs) (auto split: sum.splits if_splits)

lemma filterJS_Inl_iff: "(\<exists>e. filterJS p xs = Inl e) \<longleftrightarrow> (\<exists>x\<in>set xs. \<exists>e. p x = Inl e)"
proof
  assume "\<exists>e. filterJS p xs = Inl e" then show "\<exists>x\<in>set xs. \<exists>e. p x = Inl e" using filterJS_Inl by fast
next
  assume a: "\<exists>x\<in>set xs. \<exists>e. p x = Inl e"
  show "\<exists>e. filterJS p xs = Inl e"
  proof (cases "filterJS p xs")
    case (Inl e) then show ?thesis by blast
  next
    case (Inr ys)
    from filterJS_Inr[OF Inr] a show ?thesis by fastforce
  qed
qed

text \<open>
  C4, as the code has it. When every displayed record has the fields the active filters
  read (the effects under an effects filter, the brand under a brand filter, the terpenes
  under a terpene filter, the name under a search text), the history filter returns a list,
  and a record is in it exactly when it is in the displayed list and all six predicates hold
  of it: the rating filter is (numerically) 0 or the record's rating is at least the
  filter's; the effects filter is empty or the record's effects contain the tag; the brand
  filter is empty or the record's brand contains it, both taken through \<open>toLowerCase\<close>;
  the type filter is empty or equals the record's type; the terpene filter is empty or the
  record's terpenes contain the tag; the search text is empty or the record's name contains
  it, both taken through \<open>toLowerCase\<close>. \<open>sublist\<close> is the library's contiguous-sublist
  relation.
\<close>

theorem filteredStrains_membership:
  assumes "\<forall>s\<in>set xs. (effectsF f \<noteq> [] \<longrightarrow> effects s \<noteq> None) \<and>
                      (brandF f \<noteq> [] \<longrightarrow> brand s \<noteq> None) \<and>
                      (terpeneF f \<noteq> [] \<longrightarrow> terpenes s \<noteq> None) \<and>
                      (q \<noteq> [] \<longrightarrow> strainName s \<noteq> None)"
  shows "\<exists>out. filteredStrains toLowerCase f q xs = Inr out \<and>
     (\<forall>s. s \<in> set out \<longleftrightarrow> s \<in> set xs \<and>
       (toNumber (ratingF f) = 0 \<or> toNumber (ratingF f) \<le> rating s) \<and>
       (effectsF f = [] \<or> (\<exists>es. effects s = Some es \<and> effectsF f \<in> set es)) \<and>
       (brandF f = [] \<or>
          (\<exists>b. brand s = Some b \<and> sublist (toLowerCase (brandF f)) (toLowerCase b))) \<and>
       (typeF f = [] \<or> strainType s = Some (typeF f)) \<and>
       (terpeneF f = [] \<or> (\<exists>ts. terpenes s = Some ts \<and> terpeneF f \<in> set ts)) \<and>
       (q = [] \<or> (\<exists>n. strainName s = Some n \<and> sublist (toLowerCase q) (toLowerCase n))))"
proof -
  from assms have "\<not> (\<exists>x\<in>set xs. \<exists>e. strainMatches toLowerCase f q x = Inl e)"
    unfolding strainMatches_Inl by blast
  then have "\<not> (\<exists>e. filterJS (strainMatches toLowerCase f q) xs = Inl e)"
    unfolding filterJS_Inl_iff .
  then obtain ys where ys: "filterJS (strainMatches toLowerCase f q) xs = Inr ys"
    by (cases "filterJS (strainMatches toLowerCase f q) xs") auto
  define out where "out = sortJS compareRating ys"
  have r: "filteredStrains toLowerCase f q xs = Inr out"
    by (simp add: filteredStrains_def ys out_def)
  from filterJS_Inr [OF ys]
  have "set ys = {x \<in> set xs. strainMatches toLowerCase f q x = Inr True}"
    by auto
  then have "\<forall>s. s \<in> set out \<longleftrightarrow> s \<in> set xs \<and> strainMatches toLowerCase f q s = Inr True"
    by (simp add: out_def set_sortJS)
  with r show ?thesis
    unfolding strainMatches_True by blast
qed

theorem filteredStrains_membership_witness:
  "effects ogKush \<noteq> None \<and> brand ogKush \<noteq> None \<and> terpenes ogKush \<noteq> None \<and>
   strainName ogKush \<noteq> None \<and>
   effects blueDream \<noteq> None \<and> brand blueDream \<noteq> None \<and> terpenes blueDream \<noteq> None \<and>
   strainName blueDream \<noteq> None \<and>
   effects sourDiesel \<noteq> None \<and> brand sourDiesel \<noteq> None \<and> terpenes sourDiesel \<noteq> None \<and>
   strainName sourDiesel \<noteq> None \<and>
   filteredStrains asciiToLowerCase sampleFilters ''DREAM'' [ogKush, blueDream, sourDiesel]
     = Inr [blueDream] \<and>
   toNumber (ratingF sampleFilters) \<le> rating blueDream \<and>
   (\<exists>es. effects blueDream = Some es \<and> effectsF sampleFilters \<in> set es) \<and>
   (\<exists>b. brand blueDream = Some b \<and>
        sublist (asciiToLowerCase (brandF sampleFilters)) (asciiToLowerCase b)) \<and>
   strainType blueDream = Some (typeF sampleFilters) \<and>
   (\<exists>ts. terpenes blueDream = Some ts \<and> terpeneF sampleFilters \<in> set ts) \<and>
   (\<exists>n. strainName blueDream = Some n \<and>
        sublist (asciiToLowerCase ''DREAM'') (asciiToLowerCase n))"
proof -
  have p: "effects ogKush \<noteq> None" "brand ogKush \<noteq> None" "terpenes ogKush \<noteq> None"
    "strainName ogKush \<noteq> None"
    "effects blueDream \<noteq> None" "brand blueDream \<noteq> None" "terpenes blueDream \<noteq> None"
    "strainName blueDream \<noteq> None"
    "effects sourDiesel \<noteq> None" "brand sourDiesel \<noteq> None" "terpenes sourDiesel \<noteq> None"
    "strainName sourDiesel \<noteq> None"
    by (simp_all add: ogKush_def blueDream_def sourDiesel_def)
  then have hyp: "\<forall>s\<in>set [ogKush, blueDream, sourDiesel].
      (effectsF sampleFilters \<noteq> [] \<longrightarrow> effects s \<noteq> None) \<and>
      (brandF sampleFilters \<noteq> [] \<longrightarrow> brand s \<noteq> None) \<and>
      (terpeneF sampleFilters \<noteq> [] \<longrightarrow> terpenes s \<noteq> None) \<and>
      (''DREAM'' \<noteq> [] \<longrightarrow> strainName s \<noteq> None)"
    by simp
  have h: "filteredStrains asciiToLowerCase sampleFilters ''DREAM'' [ogKush, blueDream, sourDiesel]
     = Inr [blueDream]"
    by code_simp
  have a: "toNumber (ratingF sampleFilters) \<noteq> 0" "effectsF sampleFilters \<noteq> []"
    "brandF sampleFilters \<noteq> []" "typeF sampleFilters \<noteq> []" "terpeneF sampleFilters \<noteq> []"
    "''DREAM'' \<noteq> []"
    by (simp_all add: sampleFilters_def)
  from filteredStrains_membership [OF hyp, of asciiToLowerCase]
  obtain out where o: "filteredStrains asciiToLowerCase sampleFilters ''DREAM''
        [ogKush, blueDream, sourDiesel] = Inr out"
    and m: "blueDream \<in> set out \<longleftrightarrow> blueDream \<in> set [ogKush, blueDream, sourDiesel] \<and>
       (toNumber (ratingF sampleFilters) = 0 \<or> toNumber (ratingF sampleFilters) \<le> rating blueDream) \<and>
       (effectsF sampleFilters = [] \<or>
          (\<exists>es. effects blueDream = Some es \<and> effectsF sampleFilters \<in> set es)) \<and>
       (brandF sampleFilters = [] \<or>
          (\<exists>b. brand blueDream = Some b \<and>
               sublist (asciiToLowerCase (brandF sampleFilters)) (asciiToLowerCase b))) \<and>
       (typeF sampleFilters = [] \<or> strainType blueDream = Some (typeF sampleFilters)) \<and>
       (terpeneF sampleFilters = [] \<or>
          (\<exists>ts. terpenes blueDream = Some ts \<and> terpeneF sampleFilters \<in> set ts)) \<and>
       (''DREAM'' = [] \<or>
          (\<exists>n. strainName blueDream = Some n \<and>
               sublist (asciiToLowerCase ''DREAM'') (asciiToLowerCase n)))"
    by blast
  from o h have "out = [blueDream]"
    by simp
  then have "blueDream \<in> set out"
    by simp
  with m a
  have "toNumber (ratingF sampleFilters) \<le> rating blueDream \<and>
   (\<exists>es. effects blueDream = Some es \<and> effectsF sampleFilters \<in> set es) \<and>
   (\<exists>b. brand blueDream = Some b \<and>
        sublist (asciiToLowerCase (brandF sampleFilters)) (asciiToLowerCase b)) \<and>
   strainType blueDream = Some (typeF sampleFilters) \<and>
   (\<exists>ts. terpenes blueDream = Some ts \<and> terpeneF sampleFilters \<in> set ts) \<and>
   (\<exists>n. strainName blueDream = Some n \<and>
        sublist (asciiToLowerCase ''DREAM'') (asciiToLowerCase n))"
    by blast
  with p h show ?thesis
    by blast
qed

text \<open>
  C4 as stated fails when a displayed record lacks a field an active filter reads. Under the
  brand filter \<open>cook\<close>, Blue Dream (brand Cookies) meets all six predicates, but the list
  also holds a record without a brand: the filter throws and there is no result for Blue
  Dream to appear in.
\<close>

theorem filteredStrains_no_result_for_matching_record:
  "blueDream \<in> set [blueDream, noBrand] \<and>
   toNumber (ratingF brandCook) = 0 \<and> effectsF brandCook = [] \<and>
   brand blueDream = Some ''Cookies'' \<and>
   sublist (asciiToLowerCase (brandF brandCook)) (asciiToLowerCase ''Cookies'') \<and>
   typeF brandCook = [] \<and> terpeneF brandCook = [] \<and>
   brand noBrand = None \<and>
   filteredStrains asciiToLowerCase brandCook [] [blueDream, noBrand] = Inl TypeError"
proof -
  have "includesJS (asciiToLowerCase ''Cookies'') (asciiToLowerCase (brandF brandCook))"
    by code_simp
  then have "sublist (asciiToLowerCase (brandF brandCook)) (asciiToLowerCase ''Cookies'')"
    by (simp only: includes_iff)
  moreover have "filteredStrains asciiToLowerCase brandCook [] [blueDream, noBrand] = Inl TypeError"
    by code_simp
  ultimately show ?thesis
    by (simp add: brandCook_def blueDream_def noBrand_def)
qed

text \<open>
  C7. The list the history filter returns is in descending order of rating: each record's
  rating is at least the next one's. The comparator reads the rating and nothing else (it
  is 0 exactly on equal ratings), and records of equal rating stay in the order they have
  in the displayed list.
\<close>

theorem filteredStrains_sorted_by_rating:
  assumes "filteredStrains toLowerCase f q xs = Inr out"
  shows "(\<forall>i. Suc i < length out \<longrightarrow> rating (out ! Suc i) \<le> rating (out ! i)) \<and>
         (\<forall>a b. (compareRating a b = 0) = (rating a = rating b)) \<and>
         (\<forall>k. filter (\<lambda>s. rating s = k) out = filter (\<lambda>s. rating s = k) (filter (\<lambda>s. strainMatches toLowerCase f q s = Inr True) xs))"
proof -
  from assms obtain ys where ys: "filterJS (strainMatches toLowerCase f q) xs = Inr ys" and out: "out = sortJS compareRating ys"
    by (auto simp: filteredStrains_def split: sum.splits)
  from filterJS_Inr[OF ys] have y: "ys = filter (\<lambda>s. strainMatches toLowerCase f q s = Inr True) xs" by simp
  have "sorted_wrt (\<lambda>a b. rating b \<le> rating a) out" unfolding out by (rule sorted_sortJS)
  then have 1: "\<forall>i. Suc i < length out \<longrightarrow> rating (out ! Suc i) \<le> rating (out ! i)"
    by (simp add: sorted_wrt_iff_nth_less)
  have 2: "\<forall>a b. (compareRating a b = 0) = (rating a = rating b)" by (auto simp: compareRating_def)
  have 3: "\<forall>k. filter (\<lambda>s. rating s = k) out = filter (\<lambda>s. rating s = k) (filter (\<lambda>s. strainMatches toLowerCase f q s = Inr True) xs)"
    unfolding out y[symmetric] by (simp add: stable_sortJS)
  from 1 2 3 show ?thesis by blast
qed

theorem filteredStrains_sorted_by_rating_witness:
  "filteredStrains asciiToLowerCase initialFilters [] [ogKush, blueDream, noBrand, sourDiesel]
     = Inr [noBrand, blueDream, sourDiesel, ogKush] \<and>
   rating ([noBrand, blueDream, sourDiesel, ogKush] ! Suc 0)
     \<le> rating ([noBrand, blueDream, sourDiesel, ogKush] ! 0) \<and>
   rating ([noBrand, blueDream, sourDiesel, ogKush] ! Suc 2)
     \<le> rating ([noBrand, blueDream, sourDiesel, ogKush] ! 2) \<and>
   compareRating blueDream sourDiesel = 0"
proof -
  have h: "filteredStrains asciiToLowerCase initialFilters [] [ogKush, blueDream, noBrand, sourDiesel]
     = Inr [noBrand, blueDream, sourDiesel, ogKush]"
    by code_simp
  have l: "Suc 0 < length [noBrand, blueDream, sourDiesel, ogKush]"
    "Suc 2 < length [noBrand, blueDream, sourDiesel, ogKush]"
    by simp_all
  have r: "rating blueDream = rating sourDiesel"
    by (simp add: blueDream_def sourDiesel_def)
  from filteredStrains_sorted_by_rating [OF h] l r h show ?thesis
    by blast
qed

text \<open>
  C10. The history filter throws a \<^verbatim>\<open>TypeError\<close> exactly when some displayed record lacks
  a field whose filter is active: the brand with a non-empty brand filter, the effects with
  an effects filter, the terpenes with a terpene filter (and the name with a non-empty
  search text). It returns a list exactly when every record has the fields the active
  filters read.
\<close>

theorem filteredStrains_throws_iff_field_missing:
  "(filteredStrains toLowerCase f q xs = Inl TypeError) =
     (\<exists>s\<in>set xs. (brandF f \<noteq> [] \<and> brand s = None) \<or> (effectsF f \<noteq> [] \<and> effects s = None) \<or>
        (terpeneF f \<noteq> [] \<and> terpenes s = None) \<or> (q \<noteq> [] \<and> strainName s = None)) \<and>
   (\<exists>out. filteredStrains toLowerCase f q xs = Inr out) =
     (\<forall>s\<in>set xs. (brandF f \<noteq> [] \<longrightarrow> brand s \<noteq> None) \<and> (effectsF f \<noteq> [] \<longrightarrow> effects s \<noteq> None) \<and>
        (terpeneF f \<noteq> [] \<longrightarrow> terpenes s \<noteq> None) \<and> (q \<noteq> [] \<longrightarrow> strainName s \<noteq> None))"
proof -
  have e: "(\<exists>e. filterJS (strainMatches toLowerCase f q) xs = Inl e) \<longleftrightarrow>
     (\<exists>s\<in>set xs. (effectsF f \<noteq> [] \<and> effects s = None) \<or> (brandF f \<noteq> [] \<and> brand s = None) \<or>
     (terpeneF f \<noteq> [] \<and> terpenes s = None) \<or> (q \<noteq> [] \<and> strainName s = None))"
    unfolding filterJS_Inl_iff strainMatches_Inl ..
  have t: "filterJS (strainMatches toLowerCase f q) xs = Inl e \<Longrightarrow> e = TypeError" for e
    using filterJS_Inl strainMatches_TypeError by fast
  have a: "(filteredStrains toLowerCase f q xs = Inl TypeError) = (\<exists>e. filterJS (strainMatches toLowerCase f q) xs = Inl e)"
    using t by (auto simp: filteredStrains_def split: sum.splits)
  have b: "(\<exists>out. filteredStrains toLowerCase f q xs = Inr out) = (\<not> (\<exists>e. filterJS (strainMatches toLowerCase f q) xs = Inl e))"
    by (cases "filterJS (strainMatches toLowerCase f q) xs") (auto simp: filteredStrains_def)
  have p1: "(filteredStrains toLowerCase f q xs = Inl TypeError) =
     (\<exists>s\<in>set xs. (brandF f \<noteq> [] \<and> brand s = None) \<or> (effectsF f \<noteq> [] \<and> effects s = None) \<or>
        (terpeneF f \<noteq> [] \<and> terpenes s = None) \<or> (q \<noteq> [] \<and> strainName s = None))"
    unfolding a e by blast
  have p2: "(\<exists>out. filteredStrains toLowerCase f q xs = Inr out) =
     (\<forall>s\<in>set xs. (brandF f \<noteq> [] \<longrightarrow> brand s \<noteq> None) \<and> (effectsF f \<noteq> [] \<longrightarrow> effects s \<noteq> None) \<and>
        (terpeneF f \<noteq> [] \<longrightarrow> terpenes s \<noteq> None) \<and> (q \<noteq> [] \<longrightarrow> strainName s \<noteq> None))"
    unfolding b e by auto
  from p1 p2 show ?thesis by (rule conjI)
qed

theorem filteredStrains_throws_iff_field_missing_witness:
  "noBrand \<in> set [blueDream, noBrand] \<and> brandF brandCook \<noteq> [] \<and> brand noBrand = None \<and>
   filteredStrains asciiToLowerCase brandCook [] [blueDream, noBrand] = Inl TypeError \<and>
   filteredStrains asciiToLowerCase brandCook [] [blueDream, ogKush, sourDiesel] = Inr [blueDream, sourDiesel] \<and>
   brand blueDream \<noteq> None \<and> brand ogKush \<noteq> None \<and> brand sourDiesel \<noteq> None"
proof -
  have a: "noBrand \<in> set [blueDream, noBrand]" "brandF brandCook \<noteq> []" "brand noBrand = None"
    by (simp_all add: brandCook_def noBrand_def)
  from filteredStrains_throws_iff_field_missing [of asciiToLowerCase brandCook "[]" "[blueDream, noBrand]"] a
  have t: "filteredStrains asciiToLowerCase brandCook [] [blueDream, noBrand] = Inl TypeError"
    by blast
  have h: "filteredStrains asciiToLowerCase brandCook [] [blueDream, ogKush, sourDiesel] = Inr [blueDream, sourDiesel]"
    by code_simp
  from filteredStrains_throws_iff_field_missing [of asciiToLowerCase brandCook "[]" "[blueDream, ogKush, sourDiesel]"] h a(2)
  have "brand blueDream \<noteq> None \<and> brand ogKush \<noteq> None \<and> brand sourDiesel \<noteq> None"
    by simp
  with a t h show ?thesis
    by blast
qed


subsection \<open>Average rating\<close>

declare binaryExponent.simps [simp del]

lemma binaryExponent_lower: "0 < t \<Longrightarrow> 2 ^ 52 * n \<le> t * 2 ^ binaryExponent t n s"
proof (induction t n s rule: binaryExponent.induct)
  case (1 t n s)
  show ?case
  proof (cases "2 ^ 52 * n \<le> t * 2 ^ s")
    case True
    then show ?thesis
      by (subst binaryExponent.simps) simp
  next
    case False
    with 1 have "2 ^ 52 * n \<le> t * 2 ^ binaryExponent t n (Suc s)"
      by simp
    with False 1(2) show ?thesis
      by (subst binaryExponent.simps) simp
  qed
qed

lemma roundHalfEven_bounds:
  assumes "0 < b"
  shows "2 * (roundHalfEven a b * b) \<le> 2 * a + b \<and> 2 * a \<le> 2 * (roundHalfEven a b * b) + b"
proof -
  define q r where "q = a div b" and "r = a mod b"
  have a: "a = q * b + r"
    by (simp add: q_def r_def)
  have r: "r < b"
    using assms by (simp add: r_def)
  show ?thesis
    unfolding roundHalfEven_def q_def [symmetric] r_def [symmetric] a
    using r by (auto simp: algebra_simps)
qed

lemma tenths_bounds:
  "2 * (2 ^ s * tenths (m, s)) \<le> 20 * m + 2 ^ s \<and> 20 * m + 2 ^ s < 2 * (2 ^ s * tenths (m, s)) + 2 * 2 ^ s"
proof -
  define x d where "x = 20 * m + (2::nat) ^ s" and "d = (2::nat) ^ Suc s"
  have d: "0 < d" by (simp add: d_def)
  have "x div d * d \<le> x" by simp
  moreover have "x < x div d * d + d"
    using d by (metis add.commute div_mult_mod_eq add_less_cancel_left mod_less_divisor)
  ultimately show ?thesis
    by (simp add: tenths_def x_def d_def algebra_simps)
qed

lemma nearest_tenth:
  assumes n: "0 < n" and t: "20 * t < 2 ^ 53"
  shows "2 * (tenths (divideJS t n) * n) \<le> 20 * t + n \<and> 20 * t \<le> 2 * (tenths (divideJS t n) * n) + n"
proof (cases "t = 0")
  case True
  have "binaryExponent 0 n 0 = 0"
    by (subst binaryExponent.simps) simp
  then have "tenths (divideJS t n) = 0"
    using True n by (simp add: divideJS_def roundHalfEven_def tenths_def)
  with True show ?thesis by simp
next
  case False
  define s where "s = binaryExponent t n 0"
  define P :: nat where "P = 2 ^ s"
  define m where "m = roundHalfEven (t * P) n"
  define k where "k = tenths (m, s)"
  have dj: "divideJS t n = (m, s)"
    by (simp add: divideJS_def m_def s_def P_def)
  have A: "2 ^ 52 * n \<le> t * P"
    using False binaryExponent_lower [of t n 0] by (simp add: P_def s_def)
  have E: "10 * n < P"
  proof (rule ccontr)
    assume "\<not> 10 * n < P"
    then have "P \<le> 10 * n" by simp
    then have "t * P \<le> t * (10 * n)" by (rule mult_le_mono2)
    with A have "2 ^ 52 * n \<le> t * (10 * n)" by (rule order_trans)
    also have "t * (10 * n) = (10 * t) * n" by (simp only: mult_ac)
    finally have "(2::nat) ^ 52 \<le> 10 * t" using n by (simp only: mult_le_cancel2)
    with t show False by simp
  qed
  from roundHalfEven_bounds [OF n, of "t * P"]
  have B: "2 * (m * n) \<le> 2 * (t * P) + n" and B': "2 * (t * P) \<le> 2 * (m * n) + n"
    by (simp_all add: m_def)
  from tenths_bounds [of s m]
  have C: "2 * (P * k) \<le> 20 * m + P" and C': "20 * m + P < 2 * (P * k) + 2 * P"
    by (simp_all add: k_def P_def)
  define X where "X = k * n * P"
  from C have "2 * (P * k) * n \<le> (20 * m + P) * n" by (rule mult_le_mono1)
  then have Cn: "2 * X \<le> 20 * (m * n) + n * P" by (simp add: X_def algebra_simps)
  from C' n have "(20 * m + P) * n < (2 * (P * k) + 2 * P) * n" by simp
  then have Cn': "20 * (m * n) + n * P < 2 * X + 2 * (n * P)" by (simp add: X_def algebra_simps)
  have 1: "2 * (k * n) \<le> 20 * t + n"
  proof (rule ccontr)
    assume "\<not> 2 * (k * n) \<le> 20 * t + n"
    then have "20 * t + n + 1 \<le> 2 * (k * n)" by simp
    then have "(20 * t + n + 1) * P \<le> 2 * (k * n) * P" by (rule mult_le_mono1)
    then have "20 * (t * P) + n * P + P \<le> 2 * X" by (simp add: X_def algebra_simps)
    with Cn B E show False by linarith
  qed
  have 2: "20 * t \<le> 2 * (k * n) + n"
  proof (rule ccontr)
    assume "\<not> 20 * t \<le> 2 * (k * n) + n"
    then have "2 * (k * n) + n + 1 \<le> 20 * t" by simp
    then have "(2 * (k * n) + n + 1) * P \<le> 20 * t * P" by (rule mult_le_mono1)
    then have "2 * X + n * P + P \<le> 20 * (t * P)" by (simp add: X_def algebra_simps)
    with Cn' B' E show False by linarith
  qed
  from 1 2 show ?thesis by (simp add: dj k_def)
qed

lemma foldl_rating: "foldl (\<lambda>sum s. sum + rating s) acc xs = acc + sum_list (map rating xs)"
  by (induction xs arbitrary: acc) auto

lemma totalRating_sum: "totalRating xs = sum_list (map rating xs)"
  by (simp add: totalRating_def foldl_rating)

lemma tenth_distance:
  fixes k t n :: nat
  assumes "0 < n" "2 * (k * n) \<le> 20 * t + n" "20 * t \<le> 2 * (k * n) + n"
  shows "\<bar>real k / 10 - real t / real n\<bar> \<le> 1 / 20"
proof -
  from assms(2) have a: "2 * (real k * real n) \<le> 20 * real t + real n"
    by (metis (mono_tags, opaque_lifting) of_nat_add of_nat_le_iff of_nat_mult of_nat_numeral)
  from assms(3) have b: "20 * real t \<le> 2 * (real k * real n) + real n"
    by (metis (mono_tags, opaque_lifting) of_nat_add of_nat_le_iff of_nat_mult of_nat_numeral)
  from assms(1) a have "real k / 10 - real t / real n \<le> 1 / 20"
    by (simp add: field_simps)
  moreover from assms(1) b have "- (real k / 10 - real t / real n) \<le> 1 / 20"
    by (simp add: field_simps)
  ultimately show ?thesis
    by (simp only: abs_le_iff)
qed


lemma tenths_exact:
  assumes n: "0 < n" and t: "20 * t < 2 ^ 53"
  shows "tenths (divideJS t n) =
     (if (20 * t) mod (2 * n) = n \<and> fst (divideJS t n) * n < t * 2 ^ snd (divideJS t n)
      then (20 * t + n) div (2 * n) - 1 else (20 * t + n) div (2 * n))"
proof -
  define m s where "m = fst (divideJS t n)" and "s = snd (divideJS t n)"
  define P :: nat where "P = 2 ^ s"
  define k where "k = tenths (m, s)"
  define r where "r = (20 * t + n) div (2 * n)"
  have dj: "divideJS t n = (m, s)"
    by (simp add: m_def s_def)
  have P: "0 < P"
    by (simp add: P_def)
  from nearest_tenth [OF n t]
  have near1: "2 * (k * n) \<le> 20 * t + n" and near2: "20 * t \<le> 2 * (k * n) + n"
    by (simp_all add: dj k_def)
  from tenths_bounds [of s m]
  have C: "2 * (P * k) \<le> 20 * m + P" and C': "20 * m + P < 2 * (P * k) + 2 * P"
    by (simp_all add: k_def P_def)
  have kr: "k \<le> r"
  proof -
    from near1 have "k * (2 * n) \<le> 20 * t + n"
      by (simp add: algebra_simps)
    then show ?thesis
      unfolding r_def using n by (simp add: less_eq_div_iff_mult_less_eq)
  qed
  have rk: "r * (2 * n) \<le> 20 * t + n"
    unfolding r_def by simp
  show ?thesis
  proof (cases "(20 * t) mod (2 * n) = n")
    case False
    have "r \<le> k"
    proof (rule ccontr)
      assume "\<not> r \<le> k"
      then have "k + 1 \<le> r"
        by simp
      then have "(k + 1) * (2 * n) \<le> r * (2 * n)"
        by (rule mult_le_mono1)
      with rk have "2 * (k * n) + 2 * n \<le> 20 * t + n"
        by (simp add: algebra_simps)
      with near2 have e: "20 * t = k * (2 * n) + n"
        by (simp add: algebra_simps)
      have "(20 * t) mod (2 * n) = n"
        unfolding e using n by simp
      with False show False
        by simp
    qed
    with kr have "k = r"
      by simp
    with False show ?thesis
      by (simp add: dj k_def r_def)
  next
    case True
    define j where "j = (20 * t) div (2 * n)"
    have e: "20 * t = j * (2 * n) + n"
      using True div_mult_mod_eq [of "20 * t" "2 * n"] by (simp add: j_def)
    have rj: "r = j + 1"
    proof -
      have "20 * t + n = (j + 1) * (2 * n)"
        using e by (simp add: algebra_simps)
      then show ?thesis
        unfolding r_def using n by simp
    qed
    have jk: "j \<le> k"
    proof -
      from near2 e have "j * (2 * n) \<le> k * (2 * n)"
        by (simp add: algebra_simps)
      with n show ?thesis
        by simp
    qed
    have tP: "20 * (t * P) = (2 * j + 1) * (n * P)"
    proof -
      have "20 * (t * P) = (20 * t) * P"
        by simp
      also have "\<dots> = (j * (2 * n) + n) * P"
        by (simp only: e)
      also have "\<dots> = (2 * j + 1) * (n * P)"
        by (simp add: algebra_simps)
      finally show ?thesis .
    qed
    show ?thesis
    proof (cases "m * n < t * P")
      case below: True
      have "k \<le> j"
      proof (rule ccontr)
        assume "\<not> k \<le> j"
        then have "j + 1 \<le> k"
          by simp
        then have "P * (j + 1) \<le> P * k"
          by (rule mult_le_mono2)
        with C have "(2 * j + 1) * P \<le> 20 * m"
          by (simp add: algebra_simps)
        then have "(2 * j + 1) * P * n \<le> 20 * m * n"
          by (rule mult_le_mono1)
        then have "(2 * j + 1) * (n * P) \<le> 20 * (m * n)"
          by (simp add: algebra_simps)
        with tP have "20 * (t * P) \<le> 20 * (m * n)"
          by simp
        with below show False
          by simp
      qed
      with jk have "k = j"
        by simp
      with True below rj show ?thesis
        by (simp add: dj k_def r_def P_def m_def [symmetric] s_def [symmetric])
    next
      case notBelow: False
      then have "20 * (t * P) \<le> 20 * (m * n)"
        by simp
      with tP have "(2 * j + 1) * (n * P) \<le> 20 * (m * n)"
        by simp
      then have "((2 * j + 1) * P) * n \<le> (20 * m) * n"
        by (simp add: algebra_simps)
      with n have "(2 * j + 1) * P \<le> 20 * m"
        by (simp only: mult_le_cancel2)
      then have "(j + 1) * (2 * P) \<le> 20 * m + P"
        by (simp add: algebra_simps)
      then have "j + 1 \<le> (20 * m + P) div (2 * P)"
        using P by (simp add: less_eq_div_iff_mult_less_eq)
      then have "j + 1 \<le> k"
        by (simp add: k_def tenths_def P_def)
      with kr rj have "k = r"
        by simp
      with True notBelow show ?thesis
        by (simp add: dj k_def r_def P_def m_def [symmetric] s_def [symmetric])
    qed
  qed
qed

lemma half_up_floor:
  assumes "0 < n"
  shows "int ((20 * t + n) div (2 * n)) = \<lfloor>10 * real t / real n + 1 / 2\<rfloor>"
proof -
  have "10 * real t / real n + 1 / 2 = real (20 * t + n) / real (2 * n)"
    using assms by (simp add: field_simps)
  then show ?thesis
    by (simp only: floor_divide_of_nat_eq)
qed

text \<open>
  C3, as the code has it. For the empty list the average is the number 0. For a non-empty
  list (whose ratings sum to less than \<open>2 ^ 48\<close>, far beyond any list a JavaScript array
  can hold with ratings from 0 to 5) it is a string of digits with one digit after the
  point, spelling \<open>k / 10\<close>, where \<open>k\<close> is the arithmetic mean rounded to one decimal place,
  halves up, with one exception: when the mean lies exactly halfway between two tenths and
  the double holding the quotient is below the mean, it is rounded down. Either way the
  value shown differs from the mean by 0.05 at most. The community average is computed the
  same way.
\<close>

theorem average_rating_rounded:
  assumes "t = sum_list (map rating strains)" and "n = length strains"
  shows "myAverageRating [] = JNum 0 \<and>
   communityAverageRating strains = myAverageRating strains \<and>
   (strains \<noteq> [] \<longrightarrow> t < 2 ^ 48 \<longrightarrow>
      (\<exists>k. k = (if halfway t n \<and> quotientBelow t n
                then meanRoundedHalfUp t n - 1 else meanRoundedHalfUp t n) \<and>
           myAverageRating strains = JStr (decimal (k div 10) @ ''.'' @ decimal (k mod 10)) \<and>
           \<bar>real k / 10 - real t / real n\<bar> \<le> 1 / 20) \<and>
      int (meanRoundedHalfUp t n) = \<lfloor>10 * real t / real n + 1 / 2\<rfloor>)"
proof -
  have 1: "myAverageRating [] = JNum 0"
    by (simp add: myAverageRating_def)
  have 2: "communityAverageRating strains = myAverageRating strains"
    by (simp add: myAverageRating_def communityAverageRating_def)
  have 3: "(\<exists>k. k = (if halfway t n \<and> quotientBelow t n
                then meanRoundedHalfUp t n - 1 else meanRoundedHalfUp t n) \<and>
           myAverageRating strains = JStr (decimal (k div 10) @ ''.'' @ decimal (k mod 10)) \<and>
           \<bar>real k / 10 - real t / real n\<bar> \<le> 1 / 20) \<and>
      int (meanRoundedHalfUp t n) = \<lfloor>10 * real t / real n + 1 / 2\<rfloor>"
    if ne: "strains \<noteq> []" and small: "t < 2 ^ 48"
  proof -
    define k where "k = tenths (divideJS t n)"
    have n: "0 < n"
      using ne by (simp add: assms)
    have "20 * t < 20 * 2 ^ 48"
      using small by simp
    then have t: "20 * t < 2 ^ 53"
      by simp
    have a: "k = (if halfway t n \<and> quotientBelow t n
                then meanRoundedHalfUp t n - 1 else meanRoundedHalfUp t n)"
      unfolding k_def halfway_def quotientBelow_def meanRoundedHalfUp_def
      by (rule tenths_exact [OF n t])
    from nearest_tenth [OF n t]
    have b: "\<bar>real k / 10 - real t / real n\<bar> \<le> 1 / 20"
      unfolding k_def by (intro tenth_distance [OF n]) simp_all
    have c: "myAverageRating strains = JStr (decimal (k div 10) @ ''.'' @ decimal (k mod 10))"
      using ne by (simp add: myAverageRating_def toFixed1_def totalRating_sum k_def assms)
    have d: "int (meanRoundedHalfUp t n) = \<lfloor>10 * real t / real n + 1 / 2\<rfloor>"
      unfolding meanRoundedHalfUp_def by (rule half_up_floor [OF n])
    from a b c d show ?thesis
      by blast
  qed
  from 1 2 3 show ?thesis
    by blast
qed

theorem average_rating_rounded_witness:
  "[blueDream, ogKush] \<noteq> [] \<and> sum_list (map rating [blueDream, ogKush]) < 2 ^ 48 \<and>
   (\<exists>k. k = (if halfway (sum_list (map rating [blueDream, ogKush])) (length [blueDream, ogKush]) \<and>
                 quotientBelow (sum_list (map rating [blueDream, ogKush]))
                   (length [blueDream, ogKush])
              then meanRoundedHalfUp (sum_list (map rating [blueDream, ogKush]))
                     (length [blueDream, ogKush]) - 1
              else meanRoundedHalfUp (sum_list (map rating [blueDream, ogKush]))
                     (length [blueDream, ogKush])) \<and>
        myAverageRating [blueDream, ogKush]
          = JStr (decimal (k div 10) @ ''.'' @ decimal (k mod 10)) \<and>
        \<bar>real k / 10 - real (sum_list (map rating [blueDream, ogKush]))
                          / real (length [blueDream, ogKush])\<bar> \<le> 1 / 20) \<and>
   halfway (sum_list (map rating [blueDream, ogKush])) (length [blueDream, ogKush]) = False \<and>
   meanRoundedHalfUp (sum_list (map rating [blueDream, ogKush])) (length [blueDream, ogKush]) = 30 \<and>
   myAverageRating [blueDream, ogKush] = JStr ''3.0'' \<and>
   halfway 1 4 \<and> quotientBelow 1 4 = False \<and> meanRoundedHalfUp 1 4 = 3 \<and>
   myAverageRating fourStrains = JStr ''0.3'' \<and>
   halfway 7 20 \<and> quotientBelow 7 20 \<and> meanRoundedHalfUp 7 20 - 1 = 3"
proof -
  have a: "[blueDream, ogKush] \<noteq> []" "sum_list (map rating [blueDream, ogKush]) < 2 ^ 48"
    by (simp_all add: blueDream_def ogKush_def)
  note r = average_rating_rounded [OF refl refl, THEN conjunct2, THEN conjunct2, THEN mp, THEN mp,
      THEN conjunct1, OF a]
  have a': "halfway (sum_list (map rating [blueDream, ogKush])) (length [blueDream, ogKush]) = False"
    "meanRoundedHalfUp (sum_list (map rating [blueDream, ogKush])) (length [blueDream, ogKush]) = 30"
    by (simp_all add: blueDream_def ogKush_def halfway_def meanRoundedHalfUp_def)
  have v1: "myAverageRating [blueDream, ogKush] = JStr ''3.0''"
    by code_simp
  have b: "halfway 1 4" "meanRoundedHalfUp 1 4 = 3" "halfway 7 20" "meanRoundedHalfUp 7 20 - 1 = 3"
    by (simp_all add: halfway_def meanRoundedHalfUp_def)
  have q1: "quotientBelow 1 4 = False"
    by code_simp
  have q2: "quotientBelow 7 20"
    by code_simp
  have v2: "myAverageRating fourStrains = JStr ''0.3''"
    by code_simp
  show ?thesis
    using a r a' v1 b(1) q1 b(2) v2 b(3) q2 b(4)
    by (intro conjI) assumption+
qed

text \<open>
  C3 as stated fails where the mean is halfway between two tenths and the double is below
  it. Twenty records whose ratings sum to 7 have the mean 0.35; rounded to one decimal place
  that is 0.4 (half up and half to even agree), and the dashboard shows \<open>0.3\<close>: the double
  nearest to \<open>7 / 20\<close> is \<open>6305039478318694 / 2 ^ 54\<close>, just below 0.35.
\<close>

theorem average_of_seven_twentieths:
  "length twentyStrains = 20 \<and> sum_list (map rating twentyStrains) = 7 \<and>
   meanRoundedHalfUp 7 20 = 4 \<and>
   divideJS 7 20 = (6305039478318694, 54) \<and>
   myAverageRating twentyStrains = JStr ''0.3''"
  by code_simp

section \<open>Properties of the entry form and the session\<close>

lemma handleEvent_limit:
  "terpenesWithinLimit prev \<Longrightarrow> handleEvent ev prev = Inr next \<Longrightarrow> terpenesWithinLimit next"
  by (cases ev; cases "case ev of Change f _ \<Rightarrow> f | _ \<Rightarrow> Brand")
     (auto simp: terpenesWithinLimit_def handleChange_def handleRating_def handleEffectsToggle_def
       handleTerpenesSelect_def split: option.splits jsval.splits if_splits)

lemma handleEvents_limit:
  "terpenesWithinLimit prev \<Longrightarrow> handleEvents evs prev = Inr final \<Longrightarrow> terpenesWithinLimit final"
proof (induction evs arbitrary: prev)
  case Nil
  then show ?case by simp
next
  case (Cons ev evs)
  then show ?case
    by (auto split: sum.splits dest: handleEvent_limit)
qed

lemma privateData_limit: "terpenesWithinLimit (privateData e uid d) = terpenesWithinLimit d"
  by (simp add: terpenesWithinLimit_def privateData_def map_add_def)

lemma communityData_limit: "terpenesWithinLimit (communityData e uid i d) = terpenesWithinLimit d"
  by (simp add: terpenesWithinLimit_def communityData_def map_add_def)

lemma logStrain_limit:
  "terpenesWithinLimit d \<Longrightarrow>
     list_all writesWithinLimit (sent fs (snd (logStrain e d docId (a, fs))))"
  by (auto simp: logStrain_def setDoc_def store_def sent_def Let_def privateData_limit
      communityData_limit split: option.splits prod.splits sum.splits if_splits)

text \<open>
  C8, as the code has it. A terpene selection of more than three entries leaves the form
  as it was; one of at most three replaces the form's terpene list. Hence the limit is an
  invariant of the form: it holds of a new entry's form, every handler keeps it, and when it
  holds of the form at submission it holds of every document \<^verbatim>\<open>logStrain\<close> sends to
  the backend. So it holds at write time for every new entry, and for every edited entry
  whose stored record, which the form starts as, is within the limit.
\<close>

theorem terpene_selection_limited:
  "(3 < length selectedOptions \<longrightarrow> handleTerpenesSelect selectedOptions prev = prev) \<and>
   (length selectedOptions \<le> 3 \<longrightarrow>
      handleTerpenesSelect selectedOptions prev
        = prev(''terpenes'' \<mapsto> JArr (map JStr selectedOptions))) \<and>
   terpenesWithinLimit (initialForm None) \<and>
   (terpenesWithinLimit (initialForm initialStrain) \<longrightarrow>
    handleEvents evs (initialForm initialStrain) = Inr formData \<longrightarrow>
      terpenesWithinLimit formData \<and>
      list_all writesWithinLimit
        (sent fs (snd (handleSubmit e initialStrain formData (a, fs)))))"
proof -
  have 1: "3 < length selectedOptions \<longrightarrow> handleTerpenesSelect selectedOptions prev = prev"
    by (simp add: handleTerpenesSelect_def)
  have 2: "length selectedOptions \<le> 3 \<longrightarrow>
      handleTerpenesSelect selectedOptions prev
        = prev(''terpenes'' \<mapsto> JArr (map JStr selectedOptions))"
    by (simp add: handleTerpenesSelect_def)
  have 3: "terpenesWithinLimit (initialForm None)"
    by (simp add: initialForm_def defaultForm_def terpenesWithinLimit_def)
  have 4: "terpenesWithinLimit formData \<and>
      list_all writesWithinLimit
        (sent fs (snd (handleSubmit e initialStrain formData (a, fs))))"
    if "terpenesWithinLimit (initialForm initialStrain)"
      and "handleEvents evs (initialForm initialStrain) = Inr formData"
  proof -
    from that have "terpenesWithinLimit formData"
      by (rule handleEvents_limit)
    then show ?thesis
      unfolding handleSubmit_def by (simp add: logStrain_limit)
  qed
  from 1 2 3 4 show ?thesis
    by blast
qed

theorem terpene_selection_limited_witness:
  "3 < length [''Myrcene'', ''Pinene'', ''Limonene'', ''Linalool''] \<and>
   handleTerpenesSelect [''Myrcene'', ''Pinene'', ''Limonene'', ''Linalool''] sampleForm = sampleForm \<and>
   terpenesWithinLimit (initialForm None) \<and>
   handleEvents sampleEvents (initialForm None) = Inr sampleForm \<and>
   terpenesWithinLimit sampleForm \<and>
   list_all writesWithinLimit
     (sent emptyStore (snd (handleSubmit sampleEnv None sampleForm (sampleApp, emptyStore))))"
proof -
  have l: "3 < length [''Myrcene'', ''Pinene'', ''Limonene'', ''Linalool'']"
    by simp
  have h: "handleEvents sampleEvents (initialForm None) = Inr sampleForm"
    by (auto simp: sampleEvents_def initialForm_def defaultForm_def sampleForm_def handleChange_def
        handleRating_def handleEffectsToggle_def handleTerpenesSelect_def fun_eq_iff)
  note t = terpene_selection_limited
    [of "[''Myrcene'', ''Pinene'', ''Limonene'', ''Linalool'']" sampleForm None
        sampleEvents sampleForm emptyStore sampleEnv sampleApp]
  from t l have "handleTerpenesSelect [''Myrcene'', ''Pinene'', ''Limonene'', ''Linalool''] sampleForm
      = sampleForm"
    by blast
  moreover from t have i: "terpenesWithinLimit (initialForm None)"
    by blast
  moreover from t i h have "terpenesWithinLimit sampleForm \<and>
      list_all writesWithinLimit
        (sent emptyStore (snd (handleSubmit sampleEnv None sampleForm (sampleApp, emptyStore))))"
    by blast
  ultimately show ?thesis
    using l h by blast
qed

text \<open>
  C8 as stated fails for an edit. The form of an edit starts as the stored record; when
  that record has four terpenes and the user changes the rating only, \<^verbatim>\<open>logStrain\<close>
  sends a document with four terpenes.
\<close>

theorem edit_sends_four_terpenes:
  "users fourTerpenesStore ''u1'' ''p9'' = Some fourTerpenes \<and>
   initialForm (Some fourTerpenes) = fourTerpenes \<and>
   handleEvents [Rate 4] fourTerpenes = Inr (handleRating 4 fourTerpenes) \<and>
   sent fourTerpenesStore
     (snd (handleSubmit sampleEnv (Some fourTerpenes) (handleRating 4 fourTerpenes)
             (sampleApp, fourTerpenesStore)))
     = [SetDoc (PrivateRef ''u1'' ''p9'')
          (privateData sampleEnv ''u1'' (handleRating 4 fourTerpenes)) True] \<and>
   privateData sampleEnv ''u1'' (handleRating 4 fourTerpenes) ''terpenes''
     = Some (JArr [JStr ''Myrcene'', JStr ''Pinene'', JStr ''Limonene'', JStr ''Linalool'']) \<and>
   terpenesWithinLimit (privateData sampleEnv ''u1'' (handleRating 4 fourTerpenes)) = False"
proof -
  have 1: "users fourTerpenesStore ''u1'' ''p9'' = Some fourTerpenes"
    by (simp add: fourTerpenesStore_def noUsers_def)
  have 2: "initialForm (Some fourTerpenes) = fourTerpenes"
    by (simp add: initialForm_def)
  have 3: "handleEvents [Rate 4] fourTerpenes = Inr (handleRating 4 fourTerpenes)"
    by simp
  have i: "fourTerpenes ''id'' = Some (JStr ''p9'')"
    by (simp add: fourTerpenes_def)
  have r: "db sampleApp = Some Firestore" "userId sampleApp = Some ''u1''"
    "accepts fourTerpenesStore = acceptAll" "requests fourTerpenesStore = []"
    by (simp_all add: sampleApp_def fourTerpenesStore_def)
  have 4: "sent fourTerpenesStore
     (snd (handleSubmit sampleEnv (Some fourTerpenes) (handleRating 4 fourTerpenes)
             (sampleApp, fourTerpenesStore)))
     = [SetDoc (PrivateRef ''u1'' ''p9'')
          (privateData sampleEnv ''u1'' (handleRating 4 fourTerpenes)) True]"
    by (simp add: handleSubmit_def i r logStrain_def setDoc_def store_def sent_def Let_def)
  have 5: "privateData sampleEnv ''u1'' (handleRating 4 fourTerpenes) ''terpenes''
     = Some (JArr [JStr ''Myrcene'', JStr ''Pinene'', JStr ''Limonene'', JStr ''Linalool''])"
    by (simp add: privateData_def handleRating_def fourTerpenes_def map_add_def)
  have 6: "terpenesWithinLimit (privateData sampleEnv ''u1'' (handleRating 4 fourTerpenes)) = False"
    by (simp add: terpenesWithinLimit_def 5)
  from 1 2 3 4 5 6 show ?thesis
    by blast
qed

lemma isAdmin_authChanges:
  "isAdmin (authChanges identities a) \<longleftrightarrow>
     isAdmin a \<or> (\<exists>uid. Some uid \<in> set identities \<and> prefix ''admin_'' uid)"
  unfolding authChanges_def
  by (induction identities arbitrary: a) (auto simp: onAuthStateChanged_def split: option.splits)

text \<open>
  C9 at a concrete sequence of identity changes: after an identity with the prefix
  \<open>admin_\<close> is followed by one without it, the session holds the second identity and is
  still flagged privileged. (In general the flag is set once an identity with the prefix
  has been seen, and nothing clears it: \<open>isAdmin_authChanges\<close>.)
\<close>

theorem admin_flag_outlives_identity:
  "userId (authChanges [Some ''admin_root'', Some ''bob''] initialApp) = Some ''bob'' \<and>
   prefix ''admin_'' ''bob'' = False \<and>
   isAdmin (authChanges [Some ''admin_root'', Some ''bob''] initialApp) = True \<and>
   isAdmin (authChanges [Some ''admin_root'', None] initialApp) = True"
  by code_simp

text \<open>
  X2. From the initial state, after any sequence of identity changes, the session is flagged
  privileged exactly when some identity of the sequence, current or past, had the prefix
  \<open>admin_\<close>; after the first resolution alone, exactly when that identity has it.
\<close>

theorem admin_flag_is_sticky:
  "isAdmin (authChanges identities initialApp) =
     (\<exists>uid. Some uid \<in> set identities \<and> prefix ''admin_'' uid) \<and>
   isAdmin (authChanges [Some uid1] initialApp) = prefix ''admin_'' uid1"
proof -
  have i: "isAdmin initialApp = False"
    by (simp add: initialApp_def)
  have "isAdmin (authChanges identities initialApp) =
     (\<exists>uid. Some uid \<in> set identities \<and> prefix ''admin_'' uid)"
    unfolding isAdmin_authChanges i by simp
  moreover have "isAdmin (authChanges [Some uid1] initialApp) = prefix ''admin_'' uid1"
    unfolding isAdmin_authChanges i by simp
  ultimately show ?thesis
    by (rule conjI)
qed

end
